theory Spec2Isabelle
  imports Complex_Main
begin

section \<open>Python values, exceptions and the runtime library\<close>

text \<open>
  The two scripts \<^verbatim>\<open>export_ifc.py\<close> (interactive host, pyRevit) and
  \<^verbatim>\<open>rbp_export_ifc.py\<close> (batch host, RevitBatchProcessor) are straight-line Python:
  module-level statements, no function definitions. Each block of statements between two
  banner comments of the source is one definition here, named after the variables it assigns.

  A value of \<^verbatim>\<open>json.load\<close> is a dict, a list, a string, a number, a boolean or
  \<^verbatim>\<open>None\<close>. A dict is kept as an association list read with \<open>map_of\<close>.
\<close>

datatype pyval =
    PNone
  | PBool bool
  | PInt int
  | PFloat real
  | PStr string
  | PList "pyval list"
  | PDict "(string \<times> pyval) list"

text \<open>
  The exceptions the statements of the scripts can raise by themselves: a method looked up on
  a value that has none (\<^verbatim>\<open>params.get\<close> on a non-dict), and an operation on a value of the
  wrong type (an unhashable dictionary key, \<^verbatim>\<open>str + non-str\<close>).
\<close>

datatype pyexn = AttributeError | TypeError

text \<open>\<^verbatim>\<open>d.get(key, default)\<close>: defined on dicts only.\<close>

fun py_get :: "pyval \<Rightarrow> string \<Rightarrow> pyval \<Rightarrow> pyexn + pyval" where
  "py_get (PDict kvs) k d = Inr (case map_of kvs k of None \<Rightarrow> d | Some v \<Rightarrow> v)"
| "py_get PNone k d = Inl AttributeError"
| "py_get (PBool b) k d = Inl AttributeError"
| "py_get (PInt i) k d = Inl AttributeError"
| "py_get (PFloat x) k d = Inl AttributeError"
| "py_get (PStr s) k d = Inl AttributeError"
| "py_get (PList vs) k d = Inl AttributeError"

text \<open>Lists and dicts cannot be dictionary keys.\<close>

fun hashable :: "pyval \<Rightarrow> bool" where
  "hashable (PList vs) = False"
| "hashable (PDict kvs) = False"
| "hashable v = True"

text \<open>\<^verbatim>\<open>"literal" + v\<close>: string concatenation, a \<^verbatim>\<open>TypeError\<close> unless \<open>v\<close> is a string.\<close>

fun py_add :: "string \<Rightarrow> pyval \<Rightarrow> pyexn + string" where
  "py_add s (PStr t) = Inr (s @ t)"
| "py_add s v = Inl TypeError"

definition startswith :: "string \<Rightarrow> string \<Rightarrow> bool" where
  "startswith s p = (take (length p) s = p)"

text \<open>
  \<^verbatim>\<open>os.path\<close> belongs to the Python runtime and differs between platforms
  (\<^verbatim>\<open>ntpath\<close>, \<^verbatim>\<open>posixpath\<close>), so the scripts are modelled over any such module:
  the four functions they call are a parameter.
\<close>

record ospath =
  dirname :: "string \<Rightarrow> string"
  basename :: "string \<Rightarrow> string"
  splitext :: "string \<Rightarrow> string \<times> string"
  join :: "string \<Rightarrow> string \<Rightarrow> string"

text \<open>
  \<^verbatim>\<open>posixpath\<close>, the instance used wherever a run is evaluated on concrete paths.
  \<^verbatim>\<open>split\<close> cuts after the last slash and strips trailing slashes from the head
  unless the head is slashes only; \<^verbatim>\<open>splitext\<close> cuts at the last dot of the last
  component unless only dots precede it there; \<^verbatim>\<open>join\<close> restarts at an absolute
  second component and inserts one slash otherwise.
\<close>

definition posix_basename :: "string \<Rightarrow> string" where
  "posix_basename p = rev (takeWhile (\<lambda>c. c \<noteq> CHR ''/'') (rev p))"

definition posix_dirname :: "string \<Rightarrow> string" where
  "posix_dirname p =
     (let head = rev (dropWhile (\<lambda>c. c \<noteq> CHR ''/'') (rev p))
      in if head \<noteq> [] \<and> \<not> list_all (\<lambda>c. c = CHR ''/'') head
         then rev (dropWhile (\<lambda>c. c = CHR ''/'') (rev head))
         else head)"

definition posix_splitext :: "string \<Rightarrow> string \<times> string" where
  "posix_splitext p =
     (let r = rev (posix_basename p);
          after = takeWhile (\<lambda>c. c \<noteq> CHR ''.'') r;
          upto = dropWhile (\<lambda>c. c \<noteq> CHR ''.'') r
      in if upto \<noteq> [] \<and> \<not> list_all (\<lambda>c. c = CHR ''.'') (tl upto)
         then (take (length p - Suc (length after)) p, drop (length p - Suc (length after)) p)
         else (p, []))"

definition posix_join :: "string \<Rightarrow> string \<Rightarrow> string" where
  "posix_join a b =
     (if startswith b ''/'' then b
      else if a = [] \<or> last a = CHR ''/'' then a @ b
      else a @ ''/'' @ b)"

definition posixpath :: ospath where
  "posixpath = \<lparr>dirname = posix_dirname, basename = posix_basename,
                 splitext = posix_splitext, join = posix_join\<rparr>"

section \<open>The host: document, transaction, export call, file system\<close>

datatype IFCVersion = IFC2x3CV2 | IFC4

text \<open>
  \<^verbatim>\<open>IFCExportOptions\<close>: the three properties the scripts assign, and the named options
  handed to \<^verbatim>\<open>AddOption\<close>, in call order.
\<close>

record IFCExportOptions =
  FileVersion :: IFCVersion
  WallAndColumnSplitting :: bool
  ExportBaseQuantities :: bool
  AddedOptions :: "(string \<times> string) list"

text \<open>
  The document has a path and a content \<open>'m\<close> that only the host can read or change.
\<close>

record 'm document =
  PathName :: string
  content :: "'m"

datatype txn_status = NotStarted | Started | RolledBack | Committed

record 'm transaction =
  status :: txn_status
  saved :: "'m"

datatype export_outcome = Returned bool | Raised string

text \<open>
  What the host does is not in the scripts, so it is a parameter: whether
  \<^verbatim>\<open>t.Start()\<close> and \<^verbatim>\<open>t.RollBack()\<close> raise (with the text \<^verbatim>\<open>str(ex)\<close>
  gives), what \<^verbatim>\<open>doc.Export(dir, name, options)\<close> returns or raises and what it does to
  the content of the document, and what the language binding does when a value that is not a
  Python bool is assigned to a Boolean property (convert it or raise).
\<close>

record 'm host =
  Start_raises :: "string option"
  Export :: "string \<Rightarrow> string \<Rightarrow> IFCExportOptions \<Rightarrow> 'm \<Rightarrow> export_outcome \<times> 'm"
  RollBack_raises :: "string option"
  bool_coercion :: "pyval \<Rightarrow> pyexn + bool"

text \<open>
  The file system as \<^verbatim>\<open>os.path.exists\<close>, \<^verbatim>\<open>open\<close> and \<^verbatim>\<open>json.load\<close> see it:
  at a path there is nothing, or something that cannot be opened or parsed (with the text of
  the exception), or a file holding one JSON value.
\<close>

datatype file_state = Missing | Unreadable string | Loaded pyval

text \<open>
  A transaction remembers the content at \<^verbatim>\<open>Start\<close>; \<^verbatim>\<open>RollBack\<close> restores it.
  Leaving the \<^verbatim>\<open>with\<close> block disposes of the transaction object, and the host rolls
  back a transaction that is disposed of while still started.
\<close>

definition txn_Start ::
  "'m host \<Rightarrow> 'm document \<Rightarrow> 'm transaction \<Rightarrow> string + 'm transaction" where
  "txn_Start h doc t =
     (case Start_raises h of
        Some m \<Rightarrow> Inl m
      | None \<Rightarrow> Inr (t\<lparr>status := Started, saved := content doc\<rparr>))"

definition txn_RollBack ::
  "'m host \<Rightarrow> 'm document \<Rightarrow> 'm transaction \<Rightarrow> string + 'm document \<times> 'm transaction" where
  "txn_RollBack h doc t =
     (case RollBack_raises h of
        Some m \<Rightarrow> Inl m
      | None \<Rightarrow> Inr (doc\<lparr>content := saved t\<rparr>, t\<lparr>status := RolledBack\<rparr>))"

definition txn_Dispose :: "'m document \<Rightarrow> 'm transaction \<Rightarrow> 'm document \<times> 'm transaction" where
  "txn_Dispose doc t =
     (if status t = Started
      then (doc\<lparr>content := saved t\<rparr>, t\<lparr>status := RolledBack\<rparr>)
      else (doc, t))"

section \<open>The blocks of the scripts\<close>

subsection \<open>Parse arguments (export\_ifc.py, lines 38 to 51)\<close>

definition script_args :: "string list \<Rightarrow> string list" where
  "script_args argv = (if length argv > 1 then drop 1 argv else [])"

fun scan_args ::
  "string list \<Rightarrow> string option \<Rightarrow> string option \<Rightarrow> string option \<times> string option" where
  "scan_args [] input_path output_path = (input_path, output_path)"
| "scan_args (arg # rest) input_path output_path =
     (if startswith arg ''--'' then scan_args rest input_path output_path
      else if input_path = None then scan_args rest (Some arg) output_path
      else if output_path = None then scan_args rest input_path (Some arg)
      else scan_args rest input_path output_path)"

text \<open>Truth value of a variable that is \<^verbatim>\<open>None\<close> or a string.\<close>

fun truthy :: "string option \<Rightarrow> bool" where
  "truthy None = False"
| "truthy (Some s) = (s \<noteq> [])"

definition input_path_of :: "'m document \<Rightarrow> string option \<Rightarrow> string" where
  "input_path_of doc a = (case a of None \<Rightarrow> PathName doc
                            | Some s \<Rightarrow> if s = [] then PathName doc else s)"

subsection \<open>Read params.json (export\_ifc.py, lines 59 to 65; rbp\_export\_ifc.py, lines 40 to 46)\<close>

definition params_path :: "ospath \<Rightarrow> string \<Rightarrow> string" where
  "params_path os inp = join os (dirname os inp) ''params.json''"

definition load_params ::
  "ospath \<Rightarrow> (string \<Rightarrow> file_state) \<Rightarrow> string \<Rightarrow> string list \<times> pyval" where
  "load_params os fs inp =
     (case fs (params_path os inp) of
        Missing \<Rightarrow> ([], PDict [])
      | Unreadable e \<Rightarrow> ([''WARN: Could not read params.json: '' @ e], PDict [])
      | Loaded v \<Rightarrow> ([], v))"

subsection \<open>IFC version mapping (lines 71 to 77; 52 to 58)\<close>

definition IFC_VERSIONS :: "(string \<times> IFCVersion) list" where
  "IFC_VERSIONS = [(''IFC2x3'', IFC2x3CV2), (''IFC4'', IFC4)]"

definition version_key_of :: "pyval \<Rightarrow> pyexn + pyval" where
  "version_key_of params = py_get params ''ifcVersion'' (PStr ''IFC4'')"

text \<open>
  \<^verbatim>\<open>IFC_VERSIONS.get(version_key, IFCVersion.IFC4)\<close>: the key is hashed first; a key
  that is not a string equals none of the two keys.
\<close>

definition ifc_version_of :: "pyval \<Rightarrow> pyexn + IFCVersion" where
  "ifc_version_of version_key =
     (if \<not> hashable version_key then Inl TypeError
      else case version_key of
             PStr s \<Rightarrow> Inr (case map_of IFC_VERSIONS s of None \<Rightarrow> IFC4 | Some v \<Rightarrow> v)
           | _ \<Rightarrow> Inr IFC4)"

subsection \<open>Export options (lines 83 to 91; 64 to 70)\<close>

definition set_flag :: "'m host \<Rightarrow> pyval \<Rightarrow> pyexn + bool" where
  "set_flag h v = (case v of PBool b \<Rightarrow> Inr b | _ \<Rightarrow> bool_coercion h v)"

definition AddOption :: "string \<Rightarrow> string \<Rightarrow> IFCExportOptions \<Rightarrow> IFCExportOptions" where
  "AddOption name val opts = opts\<lparr>AddedOptions := AddedOptions opts @ [(name, val)]\<rparr>"

definition build_options :: "'m host \<Rightarrow> pyval \<Rightarrow> IFCVersion \<Rightarrow> pyexn + IFCExportOptions" where
  "build_options h params ifc_version =
     (case py_get params ''wallSplitting'' (PBool False) of Inl e \<Rightarrow> Inl e | Inr ws \<Rightarrow>
     (case set_flag h ws of Inl e \<Rightarrow> Inl e | Inr w \<Rightarrow>
     (case py_get params ''exportBaseQuantities'' (PBool True) of Inl e \<Rightarrow> Inl e | Inr bq \<Rightarrow>
     (case set_flag h bq of Inl e \<Rightarrow> Inl e | Inr q \<Rightarrow>
        Inr (AddOption ''SitePlacement'' ''0''
              (AddOption ''ExportIFCCommonPropertySets'' ''true''
                (AddOption ''ExportInternalRevitPropertySets'' ''true''
                  \<lparr>FileVersion = ifc_version, WallAndColumnSplitting = w,
                   ExportBaseQuantities = q, AddedOptions = []\<rparr>)))))))"

subsection \<open>Output directory and file name (lines 97 to 105; 76 to 80)\<close>

definition output_defaults :: "ospath \<Rightarrow> pyval \<Rightarrow> string \<Rightarrow> pyexn + pyval \<times> pyval" where
  "output_defaults os params inp =
     (case py_get params ''outputDir'' (PStr (dirname os inp)) of
        Inl e \<Rightarrow> Inl e
      | Inr d \<Rightarrow>
     (case py_get params ''outputName''
             (PStr (fst (splitext os (basename os inp)) @ ''.ifc'')) of
        Inl e \<Rightarrow> Inl e
      | Inr n \<Rightarrow> Inr (d, n)))"

subsection \<open>Everything before the first status line\<close>

text \<open>The values of the module-level variables when the first status line is printed.\<close>

record plan =
  input_path :: string
  version_key :: pyval
  options :: IFCExportOptions
  output_dir :: pyval
  output_name :: pyval

text \<open>
  Lines 76 to 101 of export\_ifc.py and lines 57 to 80 of rbp\_export\_ifc.py are the same
  statements; the first one that raises ends the script.
\<close>

definition configure :: "ospath \<Rightarrow> 'm host \<Rightarrow> pyval \<Rightarrow> string \<Rightarrow> pyexn + plan" where
  "configure os h params inp =
     (case version_key_of params of Inl e \<Rightarrow> Inl e | Inr vk \<Rightarrow>
     (case ifc_version_of vk of Inl e \<Rightarrow> Inl e | Inr ver \<Rightarrow>
     (case build_options h params ver of Inl e \<Rightarrow> Inl e | Inr opts \<Rightarrow>
     (case output_defaults os params inp of Inl e \<Rightarrow> Inl e | Inr (d, n) \<Rightarrow>
        Inr \<lparr>input_path = inp, version_key = vk, options = opts,
             output_dir = d, output_name = n\<rparr>))))"

text \<open>
  Lines 103 to 105 of export\_ifc.py: a second positional argument that is not empty
  replaces both the directory and the name. rbp\_export\_ifc.py has no such statement.
\<close>

definition output_override :: "ospath \<Rightarrow> string option \<Rightarrow> plan \<Rightarrow> plan" where
  "output_override os output_path p =
     (case output_path of
        None \<Rightarrow> p
      | Some out \<Rightarrow>
          if out \<noteq> []
          then p\<lparr>output_dir := PStr (dirname os out), output_name := PStr (basename os out)\<rparr>
          else p)"

subsection \<open>Run IFC export (lines 111 to 134; 86 to 109)\<close>

text \<open>
  The five opening \<^verbatim>\<open>print\<close> calls, as the list of the strings they are given, one
  element for each call; a concatenation that raises ends the script after the calls already
  made. When all five are made, the directory and the name are known to be strings.
\<close>

definition print_header :: "string \<Rightarrow> plan \<Rightarrow> string list \<times> (pyexn + string \<times> string)" where
  "print_header shown p =
     (let l1 = [''EXPORT_START'', ''INPUT_PATH:'' @ shown] in
      case output_dir p of
        PStr d \<Rightarrow>
          (case output_name p of
             PStr n \<Rightarrow>
               (case py_add ''IFC_VERSION:'' (version_key p) of
                  Inr l5 \<Rightarrow> (l1 @ [''OUTPUT_DIR:'' @ d, ''OUTPUT_NAME:'' @ n, l5], Inr (d, n))
                | Inl e \<Rightarrow> (l1 @ [''OUTPUT_DIR:'' @ d, ''OUTPUT_NAME:'' @ n], Inl e))
           | _ \<Rightarrow> (l1 @ [''OUTPUT_DIR:'' @ d], Inl TypeError))
      | _ \<Rightarrow> (l1, Inl TypeError))"

text \<open>
  The \<^verbatim>\<open>with\<close> block: the first call that raises leaves the block, skipping the calls
  after it; the transaction is disposed of on every way out.
\<close>

definition with_transaction ::
  "'m host \<Rightarrow> 'm document \<Rightarrow> string \<Rightarrow> string \<Rightarrow> IFCExportOptions
     \<Rightarrow> (string + bool) \<times> 'm document \<times> 'm transaction" where
  "with_transaction h doc d n opts =
     (let t = \<lparr>status = NotStarted, saved = content doc\<rparr> in
      case txn_Start h doc t of
        Inl m \<Rightarrow> (Inl m, txn_Dispose doc t)
      | Inr t1 \<Rightarrow>
          (case Export h d n opts (content doc) of
             (Raised m, c) \<Rightarrow> (Inl m, txn_Dispose (doc\<lparr>content := c\<rparr>) t1)
           | (Returned result, c) \<Rightarrow>
               (case txn_RollBack h (doc\<lparr>content := c\<rparr>) t1 of
                  Inl m \<Rightarrow> (Inl m, txn_Dispose (doc\<lparr>content := c\<rparr>) t1)
                | Inr (doc2, t2) \<Rightarrow> (Inr result, txn_Dispose doc2 t2))))"

definition print_result :: "ospath \<Rightarrow> string \<Rightarrow> string \<Rightarrow> string + bool \<Rightarrow> string list" where
  "print_result os d n r =
     (case r of
        Inr result \<Rightarrow>
          if result then [''EXPORT_RESULT:SUCCESS'', ''OUTPUT_PATH:'' @ join os d n]
          else [''EXPORT_RESULT:FAILED'', ''ERROR:Revit Document.Export() returned False'']
      | Inl ex \<Rightarrow> [''EXPORT_RESULT:ERROR'', ''ERROR:'' @ ex])"

text \<open>
  What a run leaves behind: the strings given to \<^verbatim>\<open>print\<close>, in the order of the calls,
  the exception that ended the script (if one did), the document, and the transaction object
  if one was created.
\<close>

record 'm run =
  printed :: "string list"
  uncaught :: "pyexn option"
  document :: "'m document"
  txn :: "'m transaction option"

definition run_export ::
  "ospath \<Rightarrow> 'm host \<Rightarrow> 'm document \<Rightarrow> string \<Rightarrow> string list \<Rightarrow> pyexn + plan \<Rightarrow> 'm run" where
  "run_export os h doc shown warn cfg =
     (case cfg of
        Inl e \<Rightarrow> \<lparr>printed = warn, uncaught = Some e, document = doc, txn = None\<rparr>
      | Inr p \<Rightarrow>
          (case print_header shown p of
             (ls, Inl e) \<Rightarrow>
               \<lparr>printed = warn @ ls, uncaught = Some e, document = doc, txn = None\<rparr>
           | (ls, Inr (d, n)) \<Rightarrow>
               (case with_transaction h doc d n (options p) of
                  (r, doc', t) \<Rightarrow>
                    \<lparr>printed = warn @ ls @ print_result os d n r, uncaught = None,
                     document = doc', txn = Some t\<rparr>)))"

text \<open>
  \<^verbatim>\<open>print\<close> writes its string and then a line feed. A string that holds line feeds
  itself therefore fills several lines of standard output, the pieces between its line
  feeds; only a string without one is a single line.
\<close>

definition single_line :: "string \<Rightarrow> bool" where
  "single_line s = (CHR 0x0A \<notin> set s)"

fun pieces :: "string \<Rightarrow> string list" where
  "pieces [] = [[]]"
| "pieces (c # cs) =
     (if c = CHR 0x0A then [] # pieces cs
      else (case pieces cs of [] \<Rightarrow> [[c]] | l # ls \<Rightarrow> (c # l) # ls))"

definition stdout_lines :: "string list \<Rightarrow> string list" where
  "stdout_lines calls = concat (map pieces calls)"

section \<open>The two scripts\<close>

text \<open>
  Both scripts are taken from the point where they hold the document (line 32 of
  export\_ifc.py, lines 31 and 37 of rbp\_export\_ifc.py): a host without a document is not
  among the runs described here. The constructor \<^verbatim>\<open>IFCExportOptions()\<close>, the
  assignment of the version and \<^verbatim>\<open>AddOption\<close> are taken to return. The function
  \<^verbatim>\<open>Output\<close> of \<^verbatim>\<open>revit_script_util\<close> is not part of the repository;
  \<^verbatim>\<open>printed\<close> holds the strings rbp\_export\_ifc.py gives to it, as it holds the
  strings export\_ifc.py gives to \<^verbatim>\<open>print\<close>.
\<close>

text \<open>
  export\_ifc.py: the input path is the first positional argument, or the path of the
  document when there is none or it is empty; params.json is looked for only when that path
  is not empty; a non-empty second positional argument overrides directory and name.
\<close>

definition export_ifc_params ::
  "ospath \<Rightarrow> (string \<Rightarrow> file_state) \<Rightarrow> string \<Rightarrow> string list \<times> pyval" where
  "export_ifc_params os fs inp = (if inp \<noteq> [] then load_params os fs inp else ([], PDict []))"

definition positional :: "string list \<Rightarrow> string option \<times> string option" where
  "positional argv = scan_args (script_args argv) None None"

definition export_ifc_input :: "'m document \<Rightarrow> string list \<Rightarrow> string" where
  "export_ifc_input doc argv = input_path_of doc (fst (positional argv))"

definition export_ifc_plan ::
  "ospath \<Rightarrow> 'm host \<Rightarrow> (string \<Rightarrow> file_state) \<Rightarrow> 'm document \<Rightarrow> string list \<Rightarrow> pyexn + plan" where
  "export_ifc_plan os h fs doc argv =
     (case configure os h (snd (export_ifc_params os fs (export_ifc_input doc argv)))
             (export_ifc_input doc argv) of
        Inl e \<Rightarrow> Inl e
      | Inr p \<Rightarrow> Inr (output_override os (snd (positional argv)) p))"

text \<open>Line 112 prints \<^verbatim>\<open>input_path or doc.PathName\<close>.\<close>

definition export_ifc ::
  "ospath \<Rightarrow> 'm host \<Rightarrow> (string \<Rightarrow> file_state) \<Rightarrow> 'm document \<Rightarrow> string list \<Rightarrow> 'm run" where
  "export_ifc os h fs doc argv =
     run_export os h doc
       (if export_ifc_input doc argv \<noteq> [] then export_ifc_input doc argv else PathName doc)
       (fst (export_ifc_params os fs (export_ifc_input doc argv)))
       (export_ifc_plan os h fs doc argv)"

text \<open>
  rbp\_export\_ifc.py: the input path is the path of the document, params.json is looked
  for whatever that path is, and there is no override.
\<close>

definition rbp_export_ifc_plan ::
  "ospath \<Rightarrow> 'm host \<Rightarrow> (string \<Rightarrow> file_state) \<Rightarrow> 'm document \<Rightarrow> pyexn + plan" where
  "rbp_export_ifc_plan os h fs doc =
     configure os h (snd (load_params os fs (PathName doc))) (PathName doc)"

definition rbp_export_ifc ::
  "ospath \<Rightarrow> 'm host \<Rightarrow> (string \<Rightarrow> file_state) \<Rightarrow> 'm document \<Rightarrow> 'm run" where
  "rbp_export_ifc os h fs doc =
     run_export os h doc (PathName doc) (fst (load_params os fs (PathName doc)))
       (rbp_export_ifc_plan os h fs doc)"

section \<open>The documented shape of params.json\<close>

text \<open>
  The sidecar file is written by the bridge as a JSON object with the optional keys
  \<^verbatim>\<open>ifcVersion\<close>, \<^verbatim>\<open>outputDir\<close>, \<^verbatim>\<open>outputName\<close> (strings) and
  \<^verbatim>\<open>wallSplitting\<close>, \<^verbatim>\<open>exportBaseQuantities\<close> (booleans). Other keys may be
  present with any value. A file that is missing or cannot be read counts as conforming: the
  scripts replace it by the empty dict.
\<close>

definition str_or_absent :: "(string \<times> pyval) list \<Rightarrow> string \<Rightarrow> bool" where
  "str_or_absent kvs k = (case map_of kvs k of None \<Rightarrow> True | Some (PStr s) \<Rightarrow> True | Some _ \<Rightarrow> False)"

definition bool_or_absent :: "(string \<times> pyval) list \<Rightarrow> string \<Rightarrow> bool" where
  "bool_or_absent kvs k = (case map_of kvs k of None \<Rightarrow> True | Some (PBool b) \<Rightarrow> True | Some _ \<Rightarrow> False)"

fun conforming :: "pyval \<Rightarrow> bool" where
  "conforming (PDict kvs) =
     (str_or_absent kvs ''ifcVersion'' \<and> bool_or_absent kvs ''wallSplitting'' \<and>
      bool_or_absent kvs ''exportBaseQuantities'' \<and> str_or_absent kvs ''outputDir'' \<and>
      str_or_absent kvs ''outputName'')"
| "conforming v = False"

fun conforming_file :: "file_state \<Rightarrow> bool" where
  "conforming_file Missing = True"
| "conforming_file (Unreadable e) = True"
| "conforming_file (Loaded v) = conforming v"

definition recognized :: "string set" where
  "recognized = {''ifcVersion'', ''wallSplitting'', ''exportBaseQuantities'', ''outputDir'', ''outputName''}"

text \<open>The three named options of lines 89 to 91 (68 to 70), as \<^verbatim>\<open>AddOption\<close> leaves them.\<close>

definition fixed_options :: "(string \<times> string) list" where
  "fixed_options = [(''ExportInternalRevitPropertySets'', ''true''),
      (''ExportIFCCommonPropertySets'', ''true''), (''SitePlacement'', ''0'')]"

section \<open>Sample hosts, documents and file systems\<close>

text \<open>
  A host whose export succeeds and touches the document, one whose export raises, a saved and
  an unsaved document, and file systems with one file at most.
\<close>

definition steady_host :: "nat host" where
  "steady_host = \<lparr>Start_raises = None,
                   Export = (\<lambda>d n opts c. (Returned True, Suc c)),
                   RollBack_raises = None,
                   bool_coercion = (\<lambda>v. Inl TypeError)\<rparr>"

definition faulty_host :: "nat host" where
  "faulty_host = \<lparr>Start_raises = None,
                   Export = (\<lambda>d n opts c. (Raised ''The file could not be written'', Suc c)),
                   RollBack_raises = None,
                   bool_coercion = (\<lambda>v. Inl TypeError)\<rparr>"

definition tower_doc :: "nat document" where
  "tower_doc = \<lparr>PathName = ''/jobs/tower/design.rvt'', content = 7\<rparr>"

definition unsaved_doc :: "nat document" where
  "unsaved_doc = \<lparr>PathName = [], content = 7\<rparr>"

definition no_files :: "string \<Rightarrow> file_state" where
  "no_files path = Missing"

definition one_file :: "string \<Rightarrow> file_state \<Rightarrow> string \<Rightarrow> file_state" where
  "one_file place st path = (if path = place then st else Missing)"

text \<open>
  Sidecar files next to the saved document: one that cannot be parsed, one asking for a
  version outside the table, one whose \<^verbatim>\<open>outputDir\<close> is a number, and one that
  parses to something that is not an object.
\<close>

definition garbled_sidecar :: "string \<Rightarrow> file_state" where
  "garbled_sidecar =
     one_file ''/jobs/tower/params.json'' (Unreadable ''No JSON object could be decoded'')"

definition future_sidecar :: "string \<Rightarrow> file_state" where
  "future_sidecar =
     one_file ''/jobs/tower/params.json'' (Loaded (PDict [(''ifcVersion'', PStr ''IFC5'')]))"

definition numeric_dir_sidecar :: "string \<Rightarrow> file_state" where
  "numeric_dir_sidecar =
     one_file ''/jobs/tower/params.json'' (Loaded (PDict [(''outputDir'', PInt 5)]))"

definition array_sidecar :: "string \<Rightarrow> file_state" where
  "array_sidecar = one_file ''/jobs/tower/params.json'' (Loaded (PList []))"

text \<open>
  One that sets the output directory and name, one that tries to set the fixed options, one
  in the working directory, where a script started on an unsaved document looks, and one
  asking for the legacy version under another file name.
\<close>

definition placed_sidecar :: "string \<Rightarrow> file_state" where
  "placed_sidecar =
     one_file ''/jobs/tower/params.json''
       (Loaded (PDict [(''outputDir'', PStr ''/exports''), (''outputName'', PStr ''out.ifc'')]))"

definition overriding_sidecar :: "string \<Rightarrow> file_state" where
  "overriding_sidecar =
     one_file ''/jobs/tower/params.json''
       (Loaded (PDict [(''SitePlacement'', PStr ''1''),
                       (''ExportIFCCommonPropertySets'', PBool False),
                       (''ifcVersion'', PStr ''IFC2x3'')]))"

definition cwd_sidecar :: "string \<Rightarrow> file_state" where
  "cwd_sidecar = one_file ''params.json'' (Loaded (PDict [(''outputName'', PStr ''x.ifc'')]))"

text \<open>
  One in the working directory that cannot be parsed, and one whose \<^verbatim>\<open>outputName\<close>
  is a string with a line feed in it.
\<close>

definition garbled_cwd_sidecar :: "string \<Rightarrow> file_state" where
  "garbled_cwd_sidecar =
     one_file ''params.json'' (Unreadable ''No JSON object could be decoded'')"

definition two_line_sidecar :: "string \<Rightarrow> file_state" where
  "two_line_sidecar =
     one_file ''/jobs/tower/params.json''
       (Loaded (PDict [(''outputName'',
                        PStr (''a.ifc'' @ [CHR 0x0A] @ ''EXPORT_RESULT:SUCCESS''))]))"

definition legacy_sidecar :: "string \<Rightarrow> file_state" where
  "legacy_sidecar =
     one_file ''/jobs/tower/params.json''
       (Loaded (PDict [(''ifcVersion'', PStr ''IFC2x3''), (''outputName'', PStr ''out.ifc'')]))"

section \<open>Facts about the blocks\<close>

text \<open>The equations that evaluate a run on concrete arguments.\<close>

lemmas run_defs =
  export_ifc_def export_ifc_plan_def export_ifc_params_def export_ifc_input_def positional_def
  rbp_export_ifc_def rbp_export_ifc_plan_def
  script_args_def input_path_of_def load_params_def params_path_def
  configure_def version_key_of_def ifc_version_of_def IFC_VERSIONS_def build_options_def
  set_flag_def AddOption_def output_defaults_def output_override_def
  run_export_def print_header_def with_transaction_def txn_Start_def txn_RollBack_def
  txn_Dispose_def print_result_def startswith_def

lemmas posix_defs =
  posixpath_def posix_join_def posix_dirname_def posix_basename_def posix_splitext_def

lemmas sample_defs =
  steady_host_def faulty_host_def tower_doc_def unsaved_doc_def no_files_def one_file_def
  garbled_sidecar_def future_sidecar_def numeric_dir_sidecar_def array_sidecar_def
  placed_sidecar_def overriding_sidecar_def cwd_sidecar_def legacy_sidecar_def
  garbled_cwd_sidecar_def two_line_sidecar_def

lemma ifc_version_of_str:
  "ifc_version_of (PStr s) = Inr (if s = ''IFC2x3'' then IFC2x3CV2 else IFC4)"
  by (simp add: ifc_version_of_def IFC_VERSIONS_def)

lemma py_get_str:
  "str_or_absent kvs k \<Longrightarrow> \<exists>s. py_get (PDict kvs) k (PStr d) = Inr (PStr s)"
  by (auto simp: str_or_absent_def split: option.splits pyval.splits)

lemma py_get_bool:
  "bool_or_absent kvs k \<Longrightarrow> \<exists>b. py_get (PDict kvs) k (PBool d) = Inr (PBool b)"
  by (auto simp: bool_or_absent_def split: option.splits pyval.splits)

lemma build_options_added:
  "build_options h params ver = Inr opts \<Longrightarrow>
     FileVersion opts = ver \<and> AddedOptions opts = fixed_options"
  by (auto simp: build_options_def AddOption_def fixed_options_def split: sum.splits)

lemma build_options_conforming:
  assumes "bool_or_absent kvs ''wallSplitting''" "bool_or_absent kvs ''exportBaseQuantities''"
  shows "\<exists>w q. build_options h (PDict kvs) ver =
           Inr \<lparr>FileVersion = ver, WallAndColumnSplitting = w, ExportBaseQuantities = q,
                AddedOptions = fixed_options\<rparr>"
proof -
  obtain w where w: "py_get (PDict kvs) ''wallSplitting'' (PBool False) = Inr (PBool w)"
    using py_get_bool [OF assms(1)] by blast
  obtain q where q: "py_get (PDict kvs) ''exportBaseQuantities'' (PBool True) = Inr (PBool q)"
    using py_get_bool [OF assms(2)] by blast
  show ?thesis
    unfolding build_options_def w q
    by (simp add: set_flag_def AddOption_def fixed_options_def)
qed

lemma configure_conforming:
  assumes "conforming params"
  shows "\<exists>s w q d n. configure os h params inp =
           Inr \<lparr>input_path = inp, version_key = PStr s,
                options = \<lparr>FileVersion = (if s = ''IFC2x3'' then IFC2x3CV2 else IFC4),
                            WallAndColumnSplitting = w, ExportBaseQuantities = q,
                            AddedOptions = fixed_options\<rparr>,
                output_dir = PStr d, output_name = PStr n\<rparr>"
proof -
  obtain kvs where kvs: "params = PDict kvs"
    using assms by (cases params) simp_all
  from assms kvs have c: "str_or_absent kvs ''ifcVersion''" "bool_or_absent kvs ''wallSplitting''"
    "bool_or_absent kvs ''exportBaseQuantities''" "str_or_absent kvs ''outputDir''"
    "str_or_absent kvs ''outputName''" by simp_all
  obtain s where s: "version_key_of (PDict kvs) = Inr (PStr s)"
    unfolding version_key_of_def using py_get_str [OF c(1)] by blast
  obtain w q where b: "build_options h (PDict kvs) (if s = ''IFC2x3'' then IFC2x3CV2 else IFC4) =
           Inr \<lparr>FileVersion = (if s = ''IFC2x3'' then IFC2x3CV2 else IFC4), WallAndColumnSplitting = w, ExportBaseQuantities = q,
                AddedOptions = fixed_options\<rparr>"
    using build_options_conforming [OF c(2,3)] by blast
  obtain d where d: "py_get (PDict kvs) ''outputDir'' (PStr (dirname os inp)) = Inr (PStr d)"
    using py_get_str [OF c(4)] by blast
  obtain n where n: "py_get (PDict kvs) ''outputName''
             (PStr (fst (splitext os (basename os inp)) @ ''.ifc'')) = Inr (PStr n)"
    using py_get_str [OF c(5)] by blast
  show ?thesis
    unfolding kvs configure_def s output_defaults_def d n
    by (simp add: ifc_version_of_str b del: py_get.simps)
qed

lemma configure_Inr:
  assumes "configure os h params inp = Inr p"
  shows "\<exists>kvs. params = PDict kvs \<and> input_path p = inp \<and>
           version_key p = (case map_of kvs ''ifcVersion'' of None \<Rightarrow> PStr ''IFC4'' | Some v \<Rightarrow> v) \<and>
           version_key_of params = Inr (version_key p) \<and>
           ifc_version_of (version_key p) = Inr (FileVersion (options p)) \<and>
           AddedOptions (options p) = fixed_options \<and>
           output_dir p = (case map_of kvs ''outputDir'' of None \<Rightarrow> PStr (dirname os inp) | Some v \<Rightarrow> v) \<and>
           output_name p = (case map_of kvs ''outputName'' of
                              None \<Rightarrow> PStr (fst (splitext os (basename os inp)) @ ''.ifc'')
                            | Some v \<Rightarrow> v)"
proof -
  obtain kvs where kvs: "params = PDict kvs"
    using assms by (cases params) (simp_all add: configure_def version_key_of_def)
  show ?thesis
    using assms unfolding kvs
    by (auto simp: configure_def version_key_of_def output_defaults_def
             dest: build_options_added split: sum.splits)
qed

lemma configure_empty:
  "configure os h (PDict []) inp =
     Inr \<lparr>input_path = inp, version_key = PStr ''IFC4'',
          options = \<lparr>FileVersion = IFC4, WallAndColumnSplitting = False,
                      ExportBaseQuantities = True, AddedOptions = fixed_options\<rparr>,
          output_dir = PStr (dirname os inp),
          output_name = PStr (fst (splitext os (basename os inp)) @ ''.ifc'')\<rparr>"
  by (simp add: configure_def version_key_of_def ifc_version_of_str build_options_def
        set_flag_def AddOption_def fixed_options_def output_defaults_def)

lemma load_params_conforming:
  "conforming_file (fs (params_path os inp)) \<Longrightarrow> conforming (snd (load_params os fs inp))"
  by (cases "fs (params_path os inp)")
     (simp_all add: load_params_def str_or_absent_def bool_or_absent_def)

lemma export_ifc_params_conforming:
  "conforming_file (fs (params_path os inp)) \<Longrightarrow> conforming (snd (export_ifc_params os fs inp))"
  using load_params_conforming [of fs os inp]
  by (simp add: export_ifc_params_def str_or_absent_def bool_or_absent_def)

lemma load_params_warn:
  "fst (load_params os fs inp) =
     (case fs (params_path os inp) of
        Unreadable e \<Rightarrow> [''WARN: Could not read params.json: '' @ e] | _ \<Rightarrow> [])"
  by (simp add: load_params_def split: file_state.splits)

lemma print_header_good:
  "output_dir p = PStr d \<Longrightarrow> output_name p = PStr n \<Longrightarrow> version_key p = PStr v \<Longrightarrow>
   print_header shown p =
     ([''EXPORT_START'', ''INPUT_PATH:'' @ shown, ''OUTPUT_DIR:'' @ d, ''OUTPUT_NAME:'' @ n,
       ''IFC_VERSION:'' @ v], Inr (d, n))"
  by (simp add: print_header_def)

lemma run_export_good:
  assumes "output_dir p = PStr d" "output_name p = PStr n" "version_key p = PStr v"
  shows "printed (run_export os h doc shown warn (Inr p)) =
           warn @ [''EXPORT_START'', ''INPUT_PATH:'' @ shown, ''OUTPUT_DIR:'' @ d,
                   ''OUTPUT_NAME:'' @ n, ''IFC_VERSION:'' @ v]
                @ print_result os d n (fst (with_transaction h doc d n (options p)))"
    and "uncaught (run_export os h doc shown warn (Inr p)) = None"
  by (simp_all add: run_export_def print_header_good [OF assms] split: prod.splits)

lemma with_transaction_outcome:
  "fst (with_transaction h doc d n opts) =
     (case Start_raises h of
        Some m \<Rightarrow> Inl m
      | None \<Rightarrow>
          (case fst (Export h d n opts (content doc)) of
             Raised m \<Rightarrow> Inl m
           | Returned result \<Rightarrow>
               (case RollBack_raises h of Some m \<Rightarrow> Inl m | None \<Rightarrow> Inr result)))"
proof -
  obtain out c where ex: "Export h d n opts (content doc) = (out, c)"
    by (cases "Export h d n opts (content doc)")
  show ?thesis
    by (cases "Start_raises h"; cases out; cases "RollBack_raises h")
       (simp_all add: with_transaction_def txn_Start_def txn_RollBack_def ex)
qed

lemma shown_input:
  "(if export_ifc_input doc argv \<noteq> [] then export_ifc_input doc argv else PathName doc)
     = export_ifc_input doc argv"
  by (auto simp: export_ifc_input_def input_path_of_def split: option.splits)

lemma output_override_fields:
  "input_path (output_override os a p) = input_path p"
  "version_key (output_override os a p) = version_key p"
  "options (output_override os a p) = options p"
  by (simp_all add: output_override_def split: option.splits)

lemma output_override_str:
  "output_dir p = PStr d \<Longrightarrow> output_name p = PStr n \<Longrightarrow>
   \<exists>d' n'. output_dir (output_override os a p) = PStr d' \<and>
           output_name (output_override os a p) = PStr n'"
  by (simp add: output_override_def split: option.splits)

lemma export_ifc_plan_Inr:
  assumes "export_ifc_plan os h fs doc argv = Inr p"
  shows "\<exists>p0. configure os h (snd (export_ifc_params os fs (export_ifc_input doc argv)))
                (export_ifc_input doc argv) = Inr p0 \<and>
              p = output_override os (snd (positional argv)) p0"
  using assms by (auto simp: export_ifc_plan_def split: sum.splits)

lemma export_ifc_plan_good:
  assumes "conforming (snd (export_ifc_params os fs (export_ifc_input doc argv)))"
  shows "\<exists>p d n v. export_ifc_plan os h fs doc argv = Inr p \<and> output_dir p = PStr d \<and>
           output_name p = PStr n \<and> version_key p = PStr v \<and>
           FileVersion (options p) = (if v = ''IFC2x3'' then IFC2x3CV2 else IFC4) \<and>
           AddedOptions (options p) = fixed_options"
proof -
  obtain s w q d n where
    "configure os h (snd (export_ifc_params os fs (export_ifc_input doc argv)))
        (export_ifc_input doc argv) =
           Inr \<lparr>input_path = export_ifc_input doc argv, version_key = PStr s,
                options = \<lparr>FileVersion = (if s = ''IFC2x3'' then IFC2x3CV2 else IFC4),
                            WallAndColumnSplitting = w, ExportBaseQuantities = q,
                            AddedOptions = fixed_options\<rparr>,
                output_dir = PStr d, output_name = PStr n\<rparr>"
    using configure_conforming [OF assms] by blast
  then show ?thesis
    using output_override_str [of _ d n os "snd (positional argv)"]
    by (simp add: export_ifc_plan_def output_override_fields)
qed

lemma rbp_export_ifc_plan_good:
  assumes "conforming (snd (load_params os fs (PathName doc)))"
  shows "\<exists>p d n v. rbp_export_ifc_plan os h fs doc = Inr p \<and> output_dir p = PStr d \<and>
           output_name p = PStr n \<and> version_key p = PStr v \<and>
           FileVersion (options p) = (if v = ''IFC2x3'' then IFC2x3CV2 else IFC4) \<and>
           AddedOptions (options p) = fixed_options"
  using configure_conforming [OF assms, of os h "PathName doc"]
  by (auto simp: rbp_export_ifc_plan_def)

lemma print_result_shape:
  "print_result os d n r = [''EXPORT_RESULT:SUCCESS'', ''OUTPUT_PATH:'' @ join os d n] \<and> r = Inr True \<or>
   print_result os d n r = [''EXPORT_RESULT:FAILED'', ''ERROR:Revit Document.Export() returned False'']
      \<and> r = Inr False \<or>
   (\<exists>m. print_result os d n r = [''EXPORT_RESULT:ERROR'', ''ERROR:'' @ m] \<and> r = Inl m)"
  by (cases r) (auto simp: print_result_def)

lemma load_params_warn_shape:
  "fst (load_params os fs inp) = [] \<or>
   (\<exists>e. fst (load_params os fs inp) = [''WARN: Could not read params.json: '' @ e])"
  by (simp add: load_params_warn split: file_state.splits)

lemma export_ifc_params_warn_shape:
  "fst (export_ifc_params os fs inp) = [] \<or>
   (\<exists>e. fst (export_ifc_params os fs inp) = [''WARN: Could not read params.json: '' @ e])"
  using load_params_warn_shape [of os fs inp] by (simp add: export_ifc_params_def)

lemma result_lines_shape:
  "print_result os d n r = [''EXPORT_RESULT:SUCCESS'', ''OUTPUT_PATH:'' @ join os d n] \<or>
   print_result os d n r = [''EXPORT_RESULT:FAILED'', ''ERROR:Revit Document.Export() returned False''] \<or>
   (\<exists>m. print_result os d n r = [''EXPORT_RESULT:ERROR'', ''ERROR:'' @ m])"
  using print_result_shape [of os d n r] by blast

lemma result_lines_raised:
  "Start_raises h = None \<Longrightarrow> Export h d n opts (content doc) = (Raised m, c) \<Longrightarrow>
   print_result os d n (fst (with_transaction h doc d n opts)) =
     [''EXPORT_RESULT:ERROR'', ''ERROR:'' @ m]"
  by (simp add: with_transaction_outcome print_result_def)

lemma result_lines_returned:
  "Start_raises h = None \<Longrightarrow> RollBack_raises h = None \<Longrightarrow>
   Export h d n opts (content doc) = (Returned b, c) \<Longrightarrow>
   print_result os d n (fst (with_transaction h doc d n opts)) =
     (if b then [''EXPORT_RESULT:SUCCESS'', ''OUTPUT_PATH:'' @ join os d n]
      else [''EXPORT_RESULT:FAILED'', ''ERROR:Revit Document.Export() returned False''])"
  by (simp add: with_transaction_outcome print_result_def)

lemma result_lines_start_raised:
  "Start_raises h = Some m \<Longrightarrow>
   print_result os d n (fst (with_transaction h doc d n opts)) =
     [''EXPORT_RESULT:ERROR'', ''ERROR:'' @ m]"
  by (simp add: with_transaction_outcome print_result_def)

lemma result_lines_rollback_raised:
  "Start_raises h = None \<Longrightarrow> RollBack_raises h = Some m \<Longrightarrow>
   Export h d n opts (content doc) = (Returned b, c) \<Longrightarrow>
   print_result os d n (fst (with_transaction h doc d n opts)) =
     [''EXPORT_RESULT:ERROR'', ''ERROR:'' @ m]"
  by (simp add: with_transaction_outcome print_result_def)

lemma export_ifc_conforming_run:
  assumes "conforming (snd (export_ifc_params os fs (export_ifc_input doc argv)))"
  shows "\<exists>p d n v. export_ifc_plan os h fs doc argv = Inr p \<and> output_dir p = PStr d \<and>
           output_name p = PStr n \<and> version_key p = PStr v \<and>
           FileVersion (options p) = (if v = ''IFC2x3'' then IFC2x3CV2 else IFC4) \<and>
           AddedOptions (options p) = fixed_options \<and>
           uncaught (export_ifc os h fs doc argv) = None \<and>
           printed (export_ifc os h fs doc argv) =
             fst (export_ifc_params os fs (export_ifc_input doc argv)) @
             [''EXPORT_START'', ''INPUT_PATH:'' @ export_ifc_input doc argv, ''OUTPUT_DIR:'' @ d,
              ''OUTPUT_NAME:'' @ n, ''IFC_VERSION:'' @ v] @
             print_result os d n (fst (with_transaction h doc d n (options p)))"
proof -
  obtain p d n v where p: "export_ifc_plan os h fs doc argv = Inr p"
      "output_dir p = PStr d" "output_name p = PStr n" "version_key p = PStr v"
      "FileVersion (options p) = (if v = ''IFC2x3'' then IFC2x3CV2 else IFC4)"
      "AddedOptions (options p) = fixed_options"
    using export_ifc_plan_good [OF assms, of h] by blast
  show ?thesis
    unfolding export_ifc_def shown_input p(1)
    using p(2-6) by (simp add: run_export_good [OF p(2,3,4)])
qed

lemma rbp_export_ifc_conforming_run:
  assumes "conforming (snd (load_params os fs (PathName doc)))"
  shows "\<exists>p d n v. rbp_export_ifc_plan os h fs doc = Inr p \<and> output_dir p = PStr d \<and>
           output_name p = PStr n \<and> version_key p = PStr v \<and>
           FileVersion (options p) = (if v = ''IFC2x3'' then IFC2x3CV2 else IFC4) \<and>
           AddedOptions (options p) = fixed_options \<and>
           uncaught (rbp_export_ifc os h fs doc) = None \<and>
           printed (rbp_export_ifc os h fs doc) =
             fst (load_params os fs (PathName doc)) @
             [''EXPORT_START'', ''INPUT_PATH:'' @ PathName doc, ''OUTPUT_DIR:'' @ d,
              ''OUTPUT_NAME:'' @ n, ''IFC_VERSION:'' @ v] @
             print_result os d n (fst (with_transaction h doc d n (options p)))"
proof -
  obtain p d n v where p: "rbp_export_ifc_plan os h fs doc = Inr p"
      "output_dir p = PStr d" "output_name p = PStr n" "version_key p = PStr v"
      "FileVersion (options p) = (if v = ''IFC2x3'' then IFC2x3CV2 else IFC4)"
      "AddedOptions (options p) = fixed_options"
    using rbp_export_ifc_plan_good [OF assms, of h] by blast
  show ?thesis
    unfolding rbp_export_ifc_def p(1)
    using p(2-6) by (simp add: run_export_good [OF p(2,3,4)])
qed

text \<open>Either script on a conforming sidecar, in one statement.\<close>

lemma conforming_plan_run:
  assumes run: "r = export_ifc os h fs doc argv \<and> inp = export_ifc_input doc argv \<and>
                  plan = export_ifc_plan os h fs doc argv \<or>
                r = rbp_export_ifc os h fs doc \<and> inp = PathName doc \<and>
                  plan = rbp_export_ifc_plan os h fs doc"
      and ok: "conforming_file (fs (params_path os inp))"
  obtains warn p d n v where
    "plan = Inr p" "output_dir p = PStr d" "output_name p = PStr n" "version_key p = PStr v"
    "uncaught r = None"
    "warn = [] \<or> (\<exists>e. warn = [''WARN: Could not read params.json: '' @ e])"
    "printed r = warn @ [''EXPORT_START'', ''INPUT_PATH:'' @ inp, ''OUTPUT_DIR:'' @ d,
                        ''OUTPUT_NAME:'' @ n, ''IFC_VERSION:'' @ v]
                 @ print_result os d n (fst (with_transaction h doc d n (options p)))"
  using run
proof
  assume a: "r = export_ifc os h fs doc argv \<and> inp = export_ifc_input doc argv \<and>
               plan = export_ifc_plan os h fs doc argv"
  with ok have "conforming (snd (export_ifc_params os fs (export_ifc_input doc argv)))"
    using export_ifc_params_conforming [of fs os inp] by simp
  from export_ifc_conforming_run [OF this, of h]
  obtain p d n v where p: "export_ifc_plan os h fs doc argv = Inr p" "output_dir p = PStr d"
    "output_name p = PStr n" "version_key p = PStr v"
    "uncaught (export_ifc os h fs doc argv) = None"
    "printed (export_ifc os h fs doc argv) =
             fst (export_ifc_params os fs (export_ifc_input doc argv)) @
             [''EXPORT_START'', ''INPUT_PATH:'' @ export_ifc_input doc argv, ''OUTPUT_DIR:'' @ d,
              ''OUTPUT_NAME:'' @ n, ''IFC_VERSION:'' @ v] @
             print_result os d n (fst (with_transaction h doc d n (options p)))"
    by blast
  show thesis
  proof (rule that [of p d n v "fst (export_ifc_params os fs inp)"])
    show "plan = Inr p" using a p(1) by simp
    show "output_dir p = PStr d" "output_name p = PStr n" "version_key p = PStr v"
      by (rule p(2) p(3) p(4))+
    show "uncaught r = None" using a p(5) by simp
    show "fst (export_ifc_params os fs inp) = [] \<or>
          (\<exists>e. fst (export_ifc_params os fs inp) = [''WARN: Could not read params.json: '' @ e])"
      by (rule export_ifc_params_warn_shape)
    show "printed r = fst (export_ifc_params os fs inp) @
            [''EXPORT_START'', ''INPUT_PATH:'' @ inp, ''OUTPUT_DIR:'' @ d,
             ''OUTPUT_NAME:'' @ n, ''IFC_VERSION:'' @ v]
            @ print_result os d n (fst (with_transaction h doc d n (options p)))"
      using a p(6) by simp
  qed
next
  assume a: "r = rbp_export_ifc os h fs doc \<and> inp = PathName doc \<and>
               plan = rbp_export_ifc_plan os h fs doc"
  with ok have "conforming (snd (load_params os fs (PathName doc)))"
    using load_params_conforming [of fs os inp] by simp
  from rbp_export_ifc_conforming_run [OF this, of h]
  obtain p d n v where p: "rbp_export_ifc_plan os h fs doc = Inr p" "output_dir p = PStr d"
    "output_name p = PStr n" "version_key p = PStr v"
    "uncaught (rbp_export_ifc os h fs doc) = None"
    "printed (rbp_export_ifc os h fs doc) =
             fst (load_params os fs (PathName doc)) @
             [''EXPORT_START'', ''INPUT_PATH:'' @ PathName doc, ''OUTPUT_DIR:'' @ d,
              ''OUTPUT_NAME:'' @ n, ''IFC_VERSION:'' @ v] @
             print_result os d n (fst (with_transaction h doc d n (options p)))"
    by blast
  show thesis
  proof (rule that [of p d n v "fst (load_params os fs inp)"])
    show "plan = Inr p" using a p(1) by simp
    show "output_dir p = PStr d" "output_name p = PStr n" "version_key p = PStr v"
      by (rule p(2) p(3) p(4))+
    show "uncaught r = None" using a p(5) by simp
    show "fst (load_params os fs inp) = [] \<or>
          (\<exists>e. fst (load_params os fs inp) = [''WARN: Could not read params.json: '' @ e])"
      by (rule load_params_warn_shape)
    show "printed r = fst (load_params os fs inp) @
            [''EXPORT_START'', ''INPUT_PATH:'' @ inp, ''OUTPUT_DIR:'' @ d,
             ''OUTPUT_NAME:'' @ n, ''IFC_VERSION:'' @ v]
            @ print_result os d n (fst (with_transaction h doc d n (options p)))"
      using a p(6) by simp
  qed
qed

lemma script_run_version:
  assumes run: "r = export_ifc os h fs doc argv \<and>
                params = snd (export_ifc_params os fs (export_ifc_input doc argv)) \<and>
                plan = export_ifc_plan os h fs doc argv \<or>
                r = rbp_export_ifc os h fs doc \<and>
                params = snd (load_params os fs (PathName doc)) \<and>
                plan = rbp_export_ifc_plan os h fs doc"
      and ok: "conforming params"
  shows "\<exists>p warn i d n v.
           plan = Inr p \<and> version_key_of params = Inr (PStr v) \<and>
           FileVersion (options p) = (if v = ''IFC2x3'' then IFC2x3CV2 else IFC4) \<and>
           (warn = [] \<or> (\<exists>e. warn = [''WARN: Could not read params.json: '' @ e])) \<and>
           printed r = warn @ [''EXPORT_START'', ''INPUT_PATH:'' @ i, ''OUTPUT_DIR:'' @ d,
                               ''OUTPUT_NAME:'' @ n, ''IFC_VERSION:'' @ v]
                        @ print_result os d n (fst (with_transaction h doc d n (options p)))"
  using run
proof
  assume a: "r = export_ifc os h fs doc argv \<and>
             params = snd (export_ifc_params os fs (export_ifc_input doc argv)) \<and>
             plan = export_ifc_plan os h fs doc argv"
  with ok have c: "conforming (snd (export_ifc_params os fs (export_ifc_input doc argv)))"
    by simp
  obtain p d n v where p: "export_ifc_plan os h fs doc argv = Inr p" "version_key p = PStr v"
      "FileVersion (options p) = (if v = ''IFC2x3'' then IFC2x3CV2 else IFC4)"
      "printed (export_ifc os h fs doc argv) =
             fst (export_ifc_params os fs (export_ifc_input doc argv)) @
             [''EXPORT_START'', ''INPUT_PATH:'' @ export_ifc_input doc argv, ''OUTPUT_DIR:'' @ d,
              ''OUTPUT_NAME:'' @ n, ''IFC_VERSION:'' @ v] @
             print_result os d n (fst (with_transaction h doc d n (options p)))"
    using export_ifc_conforming_run [OF c, of h] by blast
  obtain p0 where p0: "configure os h params (export_ifc_input doc argv) = Inr p0"
      "p = output_override os (snd (positional argv)) p0"
    using export_ifc_plan_Inr [OF p(1)] a by blast
  have k: "version_key_of params = Inr (PStr v)"
    using configure_Inr [OF p0(1)] p(2) p0(2) by (auto simp: output_override_fields)
  show ?thesis
    using a p k export_ifc_params_warn_shape [of os fs "export_ifc_input doc argv"]
    by (intro exI conjI) simp_all
next
  assume a: "r = rbp_export_ifc os h fs doc \<and>
                params = snd (load_params os fs (PathName doc)) \<and>
                plan = rbp_export_ifc_plan os h fs doc"
  with ok have c: "conforming (snd (load_params os fs (PathName doc)))"
    by simp
  obtain p d n v where p: "rbp_export_ifc_plan os h fs doc = Inr p" "version_key p = PStr v"
      "FileVersion (options p) = (if v = ''IFC2x3'' then IFC2x3CV2 else IFC4)"
      "printed (rbp_export_ifc os h fs doc) =
             fst (load_params os fs (PathName doc)) @
             [''EXPORT_START'', ''INPUT_PATH:'' @ PathName doc, ''OUTPUT_DIR:'' @ d,
              ''OUTPUT_NAME:'' @ n, ''IFC_VERSION:'' @ v] @
             print_result os d n (fst (with_transaction h doc d n (options p)))"
    using rbp_export_ifc_conforming_run [OF c, of h] by blast
  have k: "version_key_of params = Inr (PStr v)"
    using configure_Inr [of os h params "PathName doc" p] p(1,2) a
    by (auto simp: rbp_export_ifc_plan_def)
  show ?thesis
    using a p k load_params_warn_shape [of os fs "PathName doc"]
    by (intro exI conjI) simp_all
qed

lemma version_line_filter:
  assumes "warn = [] \<or> (\<exists>e. warn = [''WARN: Could not read params.json: '' @ e])"
  shows "filter (\<lambda>l. startswith l ''IFC_VERSION:'')
           (warn @ [''EXPORT_START'', ''INPUT_PATH:'' @ i, ''OUTPUT_DIR:'' @ d,
                    ''OUTPUT_NAME:'' @ n, ''IFC_VERSION:'' @ v] @ print_result os d n r)
         = [''IFC_VERSION:'' @ v]"
  using assms print_result_shape [of os d n r]
  by (auto simp: startswith_def)

lemma script_plan_Inr:
  assumes src: "plan = export_ifc_plan os h fs doc argv \<and>
                params = snd (export_ifc_params os fs (export_ifc_input doc argv)) \<and>
                inp = export_ifc_input doc argv \<and> out = snd (positional argv) \<or>
                plan = rbp_export_ifc_plan os h fs doc \<and>
                params = snd (load_params os fs (PathName doc)) \<and>
                inp = PathName doc \<and> out = None"
      and built: "plan = Inr p"
  shows "\<exists>p0. configure os h params inp = Inr p0 \<and> p = output_override os out p0"
  using src
proof
  assume "plan = export_ifc_plan os h fs doc argv \<and>
                params = snd (export_ifc_params os fs (export_ifc_input doc argv)) \<and>
                inp = export_ifc_input doc argv \<and> out = snd (positional argv)"
  with built export_ifc_plan_Inr [of os h fs doc argv p] show ?thesis by simp
next
  assume "plan = rbp_export_ifc_plan os h fs doc \<and>
                params = snd (load_params os fs (PathName doc)) \<and>
                inp = PathName doc \<and> out = None"
  with built show ?thesis by (simp add: rbp_export_ifc_plan_def output_override_def)
qed

lemma scan_args_flags:
  "list_all (\<lambda>a. startswith a ''--'') args \<Longrightarrow> scan_args args a1 a2 = (a1, a2)"
  by (induction args arbitrary: a1 a2) simp_all

lemma configure_same_recognized:
  assumes "\<forall>k\<in>recognized. map_of kvs k = map_of kvs' k"
  shows "configure os h (PDict kvs) inp = configure os h (PDict kvs') inp"
proof -
  have g: "py_get (PDict kvs) k d = py_get (PDict kvs') k d" if "k \<in> recognized" for k d
    using assms that by simp
  have r: "''ifcVersion'' \<in> recognized" "''wallSplitting'' \<in> recognized"
    "''exportBaseQuantities'' \<in> recognized" "''outputDir'' \<in> recognized"
    "''outputName'' \<in> recognized"
    by (simp_all add: recognized_def)
  show ?thesis
    unfolding configure_def version_key_of_def build_options_def output_defaults_def
      g [OF r(1)] g [OF r(2)] g [OF r(3)] g [OF r(4)] g [OF r(5)] ..
qed

lemma script_run_unfold:
  assumes "r = export_ifc os h fs doc argv \<and> inp = export_ifc_input doc argv \<and>
             w = fst (export_ifc_params os fs inp) \<and> plan = export_ifc_plan os h fs doc argv \<or>
           r = rbp_export_ifc os h fs doc \<and> inp = PathName doc \<and>
             w = fst (load_params os fs inp) \<and> plan = rbp_export_ifc_plan os h fs doc"
  shows "r = run_export os h doc inp w plan"
  using assms by (auto simp: export_ifc_def rbp_export_ifc_def shown_input)

lemma warn_filter:
  assumes "warn = [] \<or> (\<exists>e. warn = [''WARN: Could not read params.json: '' @ e])"
  shows "filter (\<lambda>l. startswith l ''WARN:'')
           (warn @ [''EXPORT_START'', ''INPUT_PATH:'' @ i, ''OUTPUT_DIR:'' @ d,
                    ''OUTPUT_NAME:'' @ n, ''IFC_VERSION:'' @ v] @ print_result os d n r)
         = warn"
  using assms print_result_shape [of os d n r]
  by (auto simp: startswith_def)

lemma pieces_single_line:
  "single_line s \<Longrightarrow> pieces s = [s]"
  by (induction s) (auto simp: single_line_def)

lemma stdout_lines_single:
  "list_all single_line calls \<Longrightarrow> stdout_lines calls = calls"
  by (induction calls) (simp_all add: stdout_lines_def pieces_single_line)

lemma run_export_bad_version:
  assumes "output_dir p = PStr d" "output_name p = PStr n" "\<forall>v. version_key p \<noteq> PStr v"
  shows "printed (run_export os h doc shown warn (Inr p)) =
           warn @ [''EXPORT_START'', ''INPUT_PATH:'' @ shown, ''OUTPUT_DIR:'' @ d,
                   ''OUTPUT_NAME:'' @ n]"
  using assms
  by (cases "version_key p") (simp_all add: run_export_def print_header_def)

lemma success_line:
  assumes w: "warn = [] \<or> (\<exists>e. warn = [''WARN: Could not read params.json: '' @ e])"
      and s: "''EXPORT_RESULT:SUCCESS'' \<in>
                set (warn @ [''EXPORT_START'', ''INPUT_PATH:'' @ i, ''OUTPUT_DIR:'' @ d,
                             ''OUTPUT_NAME:'' @ n, ''IFC_VERSION:'' @ v] @ print_result os d n r)"
  shows "print_result os d n r = [''EXPORT_RESULT:SUCCESS'', ''OUTPUT_PATH:'' @ join os d n]"
  using w s print_result_shape [of os d n r] by auto

lemma no_success_line:
  assumes w: "warn = [] \<or> (\<exists>e. warn = [''WARN: Could not read params.json: '' @ e])"
  shows "''EXPORT_RESULT:SUCCESS'' \<notin>
           set (warn @ [''EXPORT_START'', ''INPUT_PATH:'' @ i, ''OUTPUT_DIR:'' @ d,
                        ''OUTPUT_NAME:'' @ n])"
  using w by auto

lemma posix_bare:
  assumes "CHR ''/'' \<notin> set out"
  shows "posix_dirname out = []" "posix_basename out = out" "posix_join [] out = out"
proof -
  have t: "takeWhile (\<lambda>c. c \<noteq> CHR ''/'') (rev out) = rev out"
    using assms by (auto simp: takeWhile_eq_all_conv)
  have dw: "dropWhile (\<lambda>c. c \<noteq> CHR ''/'') (rev out) = []"
    using assms by (auto simp: dropWhile_eq_Nil_conv)
  show "posix_dirname out = []" by (simp add: posix_dirname_def dw)
  show "posix_basename out = out" by (simp add: posix_basename_def t)
  show "posix_join [] out = out"
    using assms by (cases out) (auto simp: posix_join_def startswith_def)
qed

section \<open>The four scenarios of the specification\<close>

text \<open>
  A: no params.json; B: a params.json asking for \<^verbatim>\<open>IFC2x3\<close> and the name
  \<^verbatim>\<open>out.ifc\<close>; C: a params.json that does not parse; D: an export call that raises.
\<close>

lemma scenario_A:
  "printed (export_ifc posixpath steady_host no_files tower_doc [''export_ifc.py''])
     = [''EXPORT_START'', ''INPUT_PATH:/jobs/tower/design.rvt'', ''OUTPUT_DIR:/jobs/tower'',
        ''OUTPUT_NAME:design.ifc'', ''IFC_VERSION:IFC4'', ''EXPORT_RESULT:SUCCESS'',
        ''OUTPUT_PATH:/jobs/tower/design.ifc'']"
  by (simp add: run_defs posix_defs sample_defs)

lemma scenario_B:
  "printed (rbp_export_ifc posixpath steady_host legacy_sidecar tower_doc)
     = [''EXPORT_START'', ''INPUT_PATH:/jobs/tower/design.rvt'', ''OUTPUT_DIR:/jobs/tower'',
        ''OUTPUT_NAME:out.ifc'', ''IFC_VERSION:IFC2x3'', ''EXPORT_RESULT:SUCCESS'',
        ''OUTPUT_PATH:/jobs/tower/out.ifc'']"
  by (simp add: run_defs posix_defs sample_defs)

lemma scenario_C:
  "printed (rbp_export_ifc posixpath steady_host garbled_sidecar tower_doc)
     = [''WARN: Could not read params.json: No JSON object could be decoded'',
        ''EXPORT_START'', ''INPUT_PATH:/jobs/tower/design.rvt'', ''OUTPUT_DIR:/jobs/tower'',
        ''OUTPUT_NAME:design.ifc'', ''IFC_VERSION:IFC4'', ''EXPORT_RESULT:SUCCESS'',
        ''OUTPUT_PATH:/jobs/tower/design.ifc'']"
  by (simp add: run_defs posix_defs sample_defs)

lemma scenario_D:
  "printed (export_ifc posixpath faulty_host no_files tower_doc [''export_ifc.py''])
     = [''EXPORT_START'', ''INPUT_PATH:/jobs/tower/design.rvt'', ''OUTPUT_DIR:/jobs/tower'',
        ''OUTPUT_NAME:design.ifc'', ''IFC_VERSION:IFC4'', ''EXPORT_RESULT:ERROR'',
        ''ERROR:The file could not be written'']"
  by (simp add: run_defs posix_defs sample_defs)

section \<open>The transaction around the export\<close>

lemma with_transaction_restores:
  "\<exists>r st. with_transaction h doc d n opts = (r, doc, \<lparr>status = st, saved = content doc\<rparr>)
          \<and> (st = NotStarted \<or> st = RolledBack)"
proof (cases "Start_raises h")
  case (Some m)
  then show ?thesis
    by (simp add: with_transaction_def txn_Start_def txn_Dispose_def)
next
  case None
  obtain out c where ex: "Export h d n opts (content doc) = (out, c)"
    by (cases "Export h d n opts (content doc)")
  show ?thesis
  proof (cases out)
    case (Raised m)
    with None ex show ?thesis
      by (simp add: with_transaction_def txn_Start_def txn_Dispose_def)
  next
    case (Returned result)
    with None ex show ?thesis
      by (cases "RollBack_raises h")
         (simp_all add: with_transaction_def txn_Start_def txn_RollBack_def txn_Dispose_def)
  qed
qed

lemma run_export_document:
  "document (run_export os h doc shown warn cfg) = doc"
  using with_transaction_restores [of h doc]
  apply (auto simp: run_export_def split: sum.splits prod.splits)
  by (metis Pair_inject)

lemma run_export_txn:
  "txn (run_export os h doc shown warn cfg)
     \<in> {None, Some \<lparr>status = NotStarted, saved = content doc\<rparr>,
              Some \<lparr>status = RolledBack, saved = content doc\<rparr>}"
  using with_transaction_restores [of h doc]
  apply (auto simp: run_export_def split: sum.splits prod.splits)
  by (metis Pair_inject)+

text \<open>
  An export that changes the document and then raises: \<^verbatim>\<open>t.RollBack()\<close> is skipped,
  and leaving the \<^verbatim>\<open>with\<close> block undoes the change.
\<close>

lemma rollback_after_raise:
  "with_transaction faulty_host tower_doc ''/jobs/tower'' ''design.ifc'' opts
     = (Inl ''The file could not be written'', tower_doc, \<lparr>status = RolledBack, saved = 7\<rparr>)"
  by (simp add: with_transaction_def txn_Start_def txn_Dispose_def sample_defs)

text \<open>
  C2. Whatever the arguments, the file system and the host do (the export call may return
  either result or raise, and so may \<^verbatim>\<open>Start\<close> and \<^verbatim>\<open>RollBack\<close>; the export
  may change the document while it runs), after a run of either script the document is what
  it was before the run, and the transaction, if the run came to create one, was never
  started or is rolled back: it is neither left open nor committed.
\<close>

theorem document_unchanged:
  "document (export_ifc os h fs doc argv) = doc \<and>
   document (rbp_export_ifc os h fs doc) = doc \<and>
   txn (export_ifc os h fs doc argv)
     \<in> {None, Some \<lparr>status = NotStarted, saved = content doc\<rparr>,
              Some \<lparr>status = RolledBack, saved = content doc\<rparr>} \<and>
   txn (rbp_export_ifc os h fs doc)
     \<in> {None, Some \<lparr>status = NotStarted, saved = content doc\<rparr>,
              Some \<lparr>status = RolledBack, saved = content doc\<rparr>}"
  unfolding export_ifc_def rbp_export_ifc_def
  using run_export_document run_export_txn by blast

section \<open>The status lines\<close>

text \<open>
  Where the scripts do report as required. On a params.json that is missing, unreadable or of
  the documented shape, a run of either script resolves a directory, a name and a version key
  that are strings, is not ended by an exception, and makes these \<^verbatim>\<open>print\<close> calls:
  at most one with \<^verbatim>\<open>WARN:\<close>, the five with \<^verbatim>\<open>EXPORT_START\<close>,
  \<^verbatim>\<open>INPUT_PATH:\<close>, \<^verbatim>\<open>OUTPUT_DIR:\<close>, \<^verbatim>\<open>OUTPUT_NAME:\<close>,
  \<^verbatim>\<open>IFC_VERSION:\<close> and these values, in this order, and two more:
  \<^verbatim>\<open>EXPORT_RESULT:SUCCESS\<close> with \<^verbatim>\<open>OUTPUT_PATH:\<close> and the directory joined
  to the name, or \<^verbatim>\<open>EXPORT_RESULT:FAILED\<close> with the fixed \<^verbatim>\<open>ERROR:\<close> string, or
  \<^verbatim>\<open>EXPORT_RESULT:ERROR\<close> with \<^verbatim>\<open>ERROR:\<close> and the text of the exception. This
  is a statement about calls: a call is one line of standard output only if its string holds
  no line feed.
\<close>

lemma conforming_run_calls:
  assumes run: "r = export_ifc os h fs doc argv \<and> inp = export_ifc_input doc argv \<and>
                  plan = export_ifc_plan os h fs doc argv \<or>
                r = rbp_export_ifc os h fs doc \<and> inp = PathName doc \<and>
                  plan = rbp_export_ifc_plan os h fs doc"
      and ok: "conforming_file (fs (params_path os inp))"
  shows "\<exists>warn p d n v tail.
           plan = Inr p \<and> output_dir p = PStr d \<and> output_name p = PStr n \<and>
           version_key p = PStr v \<and> uncaught r = None \<and>
           printed r = warn @ [''EXPORT_START'', ''INPUT_PATH:'' @ inp, ''OUTPUT_DIR:'' @ d,
                               ''OUTPUT_NAME:'' @ n, ''IFC_VERSION:'' @ v] @ tail \<and>
           (warn = [] \<or> (\<exists>e. warn = [''WARN: Could not read params.json: '' @ e])) \<and>
           (tail = [''EXPORT_RESULT:SUCCESS'', ''OUTPUT_PATH:'' @ join os d n] \<or>
            tail = [''EXPORT_RESULT:FAILED'', ''ERROR:Revit Document.Export() returned False''] \<or>
            (\<exists>m. tail = [''EXPORT_RESULT:ERROR'', ''ERROR:'' @ m])) \<and>
           (\<forall>m c. Start_raises h = None \<longrightarrow>
                  Export h d n (options p) (content doc) = (Raised m, c) \<longrightarrow>
                  tail = [''EXPORT_RESULT:ERROR'', ''ERROR:'' @ m]) \<and>
           (\<forall>b c. Start_raises h = None \<longrightarrow> RollBack_raises h = None \<longrightarrow>
                  Export h d n (options p) (content doc) = (Returned b, c) \<longrightarrow>
                  tail = (if b then [''EXPORT_RESULT:SUCCESS'', ''OUTPUT_PATH:'' @ join os d n]
                          else [''EXPORT_RESULT:FAILED'',
                                ''ERROR:Revit Document.Export() returned False'']))"
proof -
  from run ok obtain warn p d n v where w:
    "plan = Inr p" "output_dir p = PStr d" "output_name p = PStr n" "version_key p = PStr v"
    "uncaught r = None"
    "warn = [] \<or> (\<exists>e. warn = [''WARN: Could not read params.json: '' @ e])"
    "printed r = warn @ [''EXPORT_START'', ''INPUT_PATH:'' @ inp, ''OUTPUT_DIR:'' @ d,
                               ''OUTPUT_NAME:'' @ n, ''IFC_VERSION:'' @ v]
                        @ print_result os d n (fst (with_transaction h doc d n (options p)))"
    by (rule conforming_plan_run)
  show ?thesis
    apply (rule exI [of _ warn], rule exI [of _ p], rule exI [of _ d], rule exI [of _ n],
           rule exI [of _ v],
           rule exI [of _ "print_result os d n (fst (with_transaction h doc d n (options p)))"])
    apply (intro conjI allI impI)
             apply (rule w(1))
            apply (rule w(2))
           apply (rule w(3))
          apply (rule w(4))
         apply (rule w(5))
        apply (rule w(7))
       apply (rule w(6))
      apply (rule result_lines_shape)
     apply (erule (1) result_lines_raised)
    apply (erule (2) result_lines_returned)
    done
qed

text \<open>
  A string with a line feed in it is of the documented shape. With
  \<^verbatim>\<open>{"outputName": "a.ifc\nEXPORT_RESULT:SUCCESS"}\<close> next to the document, the calls of
  export\_ifc.py at lines 114, 126 and 127 put three lines \<^verbatim>\<open>EXPORT_RESULT:SUCCESS\<close>
  on standard output.
\<close>

lemma line_feed_in_output_name:
  "conforming_file (two_line_sidecar (params_path posixpath (PathName tower_doc))) \<and>
   stdout_lines
     (printed (export_ifc posixpath steady_host two_line_sidecar tower_doc [''export_ifc.py'']))
     = [''EXPORT_START'', ''INPUT_PATH:/jobs/tower/design.rvt'', ''OUTPUT_DIR:/jobs/tower'',
        ''OUTPUT_NAME:a.ifc'', ''EXPORT_RESULT:SUCCESS'', ''IFC_VERSION:IFC4'',
        ''EXPORT_RESULT:SUCCESS'', ''OUTPUT_PATH:/jobs/tower/a.ifc'', ''EXPORT_RESULT:SUCCESS'']"
  by (simp add: run_defs posix_defs sample_defs stdout_lines_def
        str_or_absent_def bool_or_absent_def)

text \<open>
  C1. The claim asks every invocation for the five opening lines and for exactly one
  \<^verbatim>\<open>EXPORT_RESULT:\<close> line. With \<^verbatim>\<open>{"outputDir": 5}\<close> in the params.json next to
  the document, export\_ifc.py writes \<^verbatim>\<open>EXPORT_START\<close> and \<^verbatim>\<open>INPUT_PATH:\<close> and
  is then ended by \<^verbatim>\<open>TypeError\<close> at line 113, where \<^verbatim>\<open>"OUTPUT_DIR:"\<close> is
  concatenated with the number, outside every \<^verbatim>\<open>try\<close>. Standard output holds these
  two lines and no more: no \<^verbatim>\<open>OUTPUT_DIR:\<close>, \<^verbatim>\<open>OUTPUT_NAME:\<close>,
  \<^verbatim>\<open>IFC_VERSION:\<close> or \<^verbatim>\<open>EXPORT_RESULT:\<close> line, and no transaction was created.
\<close>

theorem header_ended_by_type_error:
  "printed (export_ifc posixpath steady_host numeric_dir_sidecar tower_doc [''export_ifc.py''])
     = [''EXPORT_START'', ''INPUT_PATH:/jobs/tower/design.rvt''] \<and>
   stdout_lines
     (printed (export_ifc posixpath steady_host numeric_dir_sidecar tower_doc [''export_ifc.py'']))
     = [''EXPORT_START'', ''INPUT_PATH:/jobs/tower/design.rvt''] \<and>
   uncaught (export_ifc posixpath steady_host numeric_dir_sidecar tower_doc [''export_ifc.py''])
     = Some TypeError \<and>
   txn (export_ifc posixpath steady_host numeric_dir_sidecar tower_doc [''export_ifc.py''])
     = None"
  by (simp add: run_defs posix_defs sample_defs stdout_lines_def)

section \<open>Exceptions that leave the script\<close>

text \<open>
  C3. The claim asks that nothing be thrown out of the top level, whatever the sidecar file
  holds. A params.json holding \<^verbatim>\<open>[]\<close> parses, so the handler of lines 42 to 46 of
  rbp\_export\_ifc.py (61 to 65 of export\_ifc.py), which answers a file that cannot be read
  with a \<^verbatim>\<open>WARN:\<close> line and the empty dict, catches nothing. \<^verbatim>\<open>params.get\<close>
  at line 57 (76) then raises \<^verbatim>\<open>AttributeError\<close> outside every \<^verbatim>\<open>try\<close>: either
  script is ended by that exception with nothing printed and no transaction created.
\<close>

theorem attribute_error_leaves_script:
  "printed (rbp_export_ifc posixpath steady_host array_sidecar tower_doc) = [] \<and>
   uncaught (rbp_export_ifc posixpath steady_host array_sidecar tower_doc) = Some AttributeError \<and>
   txn (rbp_export_ifc posixpath steady_host array_sidecar tower_doc) = None \<and>
   printed (export_ifc posixpath steady_host array_sidecar tower_doc [''export_ifc.py'']) = [] \<and>
   uncaught (export_ifc posixpath steady_host array_sidecar tower_doc [''export_ifc.py''])
     = Some AttributeError \<and>
   txn (export_ifc posixpath steady_host array_sidecar tower_doc [''export_ifc.py'']) = None"
  by (simp add: run_defs posix_defs sample_defs)

section \<open>The version line\<close>

text \<open>
  C4 (as amended). On a params.json of the documented shape the \<^verbatim>\<open>IFC_VERSION:\<close> line
  carries the version key as requested: the string under \<^verbatim>\<open>ifcVersion\<close>, verbatim, or
  \<^verbatim>\<open>IFC4\<close> when the key is absent. The version handed to the host is the table entry
  of that key, or IFC4 when the key is not in the table; so the line names the version used
  exactly when the requested key is in the table or absent.
\<close>

theorem version_line_echoes_request:
  assumes run: "r = export_ifc os h fs doc argv \<and>
                params = snd (export_ifc_params os fs (export_ifc_input doc argv)) \<and>
                plan = export_ifc_plan os h fs doc argv \<or>
                r = rbp_export_ifc os h fs doc \<and>
                params = snd (load_params os fs (PathName doc)) \<and>
                plan = rbp_export_ifc_plan os h fs doc"
      and ok: "conforming params"
      and key: "version_key_of params = Inr (PStr key)"
  shows "filter (\<lambda>l. startswith l ''IFC_VERSION:'') (printed r) = [''IFC_VERSION:'' @ key] \<and>
         (\<exists>p. plan = Inr p \<and>
              FileVersion (options p) = (if key = ''IFC2x3'' then IFC2x3CV2 else IFC4))"
proof -
  obtain p warn i d n v where v: "plan = Inr p" "version_key_of params = Inr (PStr v)"
      "FileVersion (options p) = (if v = ''IFC2x3'' then IFC2x3CV2 else IFC4)"
      "warn = [] \<or> (\<exists>e. warn = [''WARN: Could not read params.json: '' @ e])"
      "printed r = warn @ [''EXPORT_START'', ''INPUT_PATH:'' @ i, ''OUTPUT_DIR:'' @ d,
                               ''OUTPUT_NAME:'' @ n, ''IFC_VERSION:'' @ v]
                        @ print_result os d n (fst (with_transaction h doc d n (options p)))"
    using script_run_version [OF run ok] by blast
  from v(2) key have "v = key" by simp
  with v(1,3) version_line_filter [OF v(4), of i d n v os] v(5) show ?thesis
    by simp
qed

theorem version_line_echoes_request_witness:
  "conforming (snd (export_ifc_params posixpath future_sidecar
                      (export_ifc_input tower_doc [''export_ifc.py'']))) \<and>
   version_key_of (snd (export_ifc_params posixpath future_sidecar
                      (export_ifc_input tower_doc [''export_ifc.py''])))
     = Inr (PStr ''IFC5'') \<and>
   filter (\<lambda>l. startswith l ''IFC_VERSION:'')
     (printed (export_ifc posixpath steady_host future_sidecar tower_doc [''export_ifc.py'']))
     = [''IFC_VERSION:'' @ ''IFC5''] \<and>
   (\<exists>p. export_ifc_plan posixpath steady_host future_sidecar tower_doc [''export_ifc.py''] = Inr p \<and>
        FileVersion (options p) = (if ''IFC5'' = ''IFC2x3'' then IFC2x3CV2 else IFC4))"
proof -
  let ?params = "snd (export_ifc_params posixpath future_sidecar
                      (export_ifc_input tower_doc [''export_ifc.py'']))"
  have p: "?params = PDict [(''ifcVersion'', PStr ''IFC5'')]"
    by (simp add: run_defs posix_defs sample_defs)
  have ok: "conforming ?params"
    unfolding p by (simp add: str_or_absent_def bool_or_absent_def)
  have key: "version_key_of ?params = Inr (PStr ''IFC5'')"
    unfolding p by (simp add: version_key_of_def)
  from version_line_echoes_request
     [where r = "export_ifc posixpath steady_host future_sidecar tower_doc [''export_ifc.py'']"
      and os = posixpath and h = steady_host and fs = future_sidecar and doc = tower_doc
      and argv = "[''export_ifc.py'']" and params = ?params
      and plan = "export_ifc_plan posixpath steady_host future_sidecar tower_doc [''export_ifc.py'']"
      and key = "''IFC5''",
      OF disjI1 [OF conjI [OF refl conjI [OF refl refl]]] ok key] ok key
  show ?thesis by blast
qed

text \<open>
  With \<^verbatim>\<open>{"ifcVersion": "IFC5"}\<close> the line reads \<^verbatim>\<open>IFC_VERSION:IFC5\<close> while the
  export runs with IFC4: the line does not report the default key the resolution fell back to.
\<close>

theorem version_line_counterexample:
  "printed (export_ifc posixpath steady_host future_sidecar tower_doc [''export_ifc.py''])
     = [''EXPORT_START'', ''INPUT_PATH:/jobs/tower/design.rvt'', ''OUTPUT_DIR:/jobs/tower'',
        ''OUTPUT_NAME:design.ifc'', ''IFC_VERSION:IFC5'', ''EXPORT_RESULT:SUCCESS'',
        ''OUTPUT_PATH:/jobs/tower/design.ifc''] \<and>
   export_ifc_plan posixpath steady_host future_sidecar tower_doc [''export_ifc.py'']
     = Inr \<lparr>input_path = ''/jobs/tower/design.rvt'', version_key = PStr ''IFC5'',
            options = \<lparr>FileVersion = IFC4, WallAndColumnSplitting = False,
                        ExportBaseQuantities = True,
                        AddedOptions = [(''ExportInternalRevitPropertySets'', ''true''),
                                        (''ExportIFCCommonPropertySets'', ''true''),
                                        (''SitePlacement'', ''0'')]\<rparr>,
            output_dir = PStr ''/jobs/tower'', output_name = PStr ''design.ifc''\<rparr>"
  by (simp add: run_defs posix_defs sample_defs)

section \<open>Output directory and name\<close>

text \<open>
  C5. Whenever a script gets as far as resolving the output location: in export\_ifc.py a
  second positional argument that is not empty gives both the directory (its
  \<^verbatim>\<open>dirname\<close>) and the name (its \<^verbatim>\<open>basename\<close>), whatever params.json holds;
  without such an argument, and always in rbp\_export\_ifc.py, the directory is the value
  under \<^verbatim>\<open>outputDir\<close> if the key is present and the directory of the input path
  otherwise, and, independently, the name is the value under \<^verbatim>\<open>outputName\<close> if
  present and the base name of the input path with its extension replaced by
  \<^verbatim>\<open>.ifc\<close> otherwise.
\<close>

theorem output_precedence:
  assumes src: "plan = export_ifc_plan os h fs doc argv \<and>
                params = snd (export_ifc_params os fs (export_ifc_input doc argv)) \<and>
                inp = export_ifc_input doc argv \<and> out = snd (positional argv) \<or>
                plan = rbp_export_ifc_plan os h fs doc \<and>
                params = snd (load_params os fs (PathName doc)) \<and>
                inp = PathName doc \<and> out = None"
      and built: "plan = Inr p"
  shows "\<exists>kvs. params = PDict kvs \<and>
           (\<forall>path. out = Some path \<and> path \<noteq> [] \<longrightarrow>
              output_dir p = PStr (dirname os path) \<and> output_name p = PStr (basename os path)) \<and>
           (\<not> truthy out \<longrightarrow>
              output_dir p = (case map_of kvs ''outputDir'' of
                                Some v \<Rightarrow> v | None \<Rightarrow> PStr (dirname os inp)) \<and>
              output_name p = (case map_of kvs ''outputName'' of
                                 Some v \<Rightarrow> v
                               | None \<Rightarrow> PStr (fst (splitext os (basename os inp)) @ ''.ifc'')))"
proof -
  obtain p0 where p0: "configure os h params inp = Inr p0" "p = output_override os out p0"
    using script_plan_Inr [OF src built] by blast
  obtain kvs where k: "params = PDict kvs"
    "output_dir p0 = (case map_of kvs ''outputDir'' of None \<Rightarrow> PStr (dirname os inp) | Some v \<Rightarrow> v)"
    "output_name p0 = (case map_of kvs ''outputName'' of
                              None \<Rightarrow> PStr (fst (splitext os (basename os inp)) @ ''.ifc'')
                            | Some v \<Rightarrow> v)"
    using configure_Inr [OF p0(1)] by blast
  have 1: "\<forall>path. out = Some path \<and> path \<noteq> [] \<longrightarrow>
              output_dir p = PStr (dirname os path) \<and> output_name p = PStr (basename os path)"
    by (simp add: p0(2) output_override_def)
  have 2: "\<not> truthy out \<longrightarrow> p = p0"
    by (cases out) (simp_all add: p0(2) output_override_def)
  from k 1 2 show ?thesis
    by (intro exI [of _ kvs]) (auto split: option.splits)
qed

theorem output_precedence_witness:
  "export_ifc_plan posixpath steady_host placed_sidecar tower_doc
     [''export_ifc.py'', ''--revit=2023'', ''/jobs/tower/design.rvt'', ''/archive/tower.ifc'']
   = Inr \<lparr>input_path = ''/jobs/tower/design.rvt'', version_key = PStr ''IFC4'',
          options = \<lparr>FileVersion = IFC4, WallAndColumnSplitting = False,
                      ExportBaseQuantities = True, AddedOptions = fixed_options\<rparr>,
          output_dir = PStr ''/archive'', output_name = PStr ''tower.ifc''\<rparr> \<and>
   (\<exists>kvs. snd (export_ifc_params posixpath placed_sidecar ''/jobs/tower/design.rvt'') = PDict kvs \<and>
      PStr ''/archive'' = PStr (dirname posixpath ''/archive/tower.ifc'') \<and>
      PStr ''tower.ifc'' = PStr (basename posixpath ''/archive/tower.ifc''))"
proof -
  let ?argv = "[''export_ifc.py'', ''--revit=2023'', ''/jobs/tower/design.rvt'', ''/archive/tower.ifc'']"
  let ?p = "\<lparr>input_path = ''/jobs/tower/design.rvt'', version_key = PStr ''IFC4'',
          options = \<lparr>FileVersion = IFC4, WallAndColumnSplitting = False,
                      ExportBaseQuantities = True, AddedOptions = fixed_options\<rparr>,
          output_dir = PStr ''/archive'', output_name = PStr ''tower.ifc''\<rparr>"
  have built: "export_ifc_plan posixpath steady_host placed_sidecar tower_doc ?argv = Inr ?p"
    by (simp add: run_defs posix_defs sample_defs fixed_options_def)
  have i: "export_ifc_input tower_doc ?argv = ''/jobs/tower/design.rvt''"
    by (simp add: run_defs sample_defs)
  have o: "snd (positional ?argv) = Some ''/archive/tower.ifc''"
    by (simp add: run_defs)
  from output_precedence
     [where plan = "export_ifc_plan posixpath steady_host placed_sidecar tower_doc ?argv"
      and os = posixpath and h = steady_host and fs = placed_sidecar and doc = tower_doc
      and argv = ?argv
      and params = "snd (export_ifc_params posixpath placed_sidecar (export_ifc_input tower_doc ?argv))"
      and inp = "export_ifc_input tower_doc ?argv" and out = "snd (positional ?argv)" and p = ?p,
      OF disjI1 [OF conjI [OF refl conjI [OF refl conjI [OF refl refl]]]] built]
  have "\<exists>kvs. snd (export_ifc_params posixpath placed_sidecar ''/jobs/tower/design.rvt'') = PDict kvs \<and>
      PStr ''/archive'' = PStr (dirname posixpath ''/archive/tower.ifc'') \<and>
      PStr ''tower.ifc'' = PStr (basename posixpath ''/archive/tower.ifc'')"
    unfolding i o by auto
  with built show ?thesis by (rule conjI)
qed

text \<open>
  C10. In export\_ifc.py, when the second positional argument is a bare file name (its
  directory part is empty, its base name is itself, and joining it to the empty directory
  gives it back, as \<^verbatim>\<open>os.path\<close> does for a name without separator), the output
  directory is the empty string, whatever the input path and \<^verbatim>\<open>outputDir\<close> are, and
  a run that reports SUCCESS prints \<^verbatim>\<open>OUTPUT_DIR:\<close> with nothing after it and ends
  with \<^verbatim>\<open>OUTPUT_PATH:\<close> followed by just that name.
\<close>

theorem bare_output_name:
  assumes arg: "snd (positional argv) = Some out" "out \<noteq> []"
      and bare: "dirname os out = []" "basename os out = out" "join os [] out = out"
      and built: "export_ifc_plan os h fs doc argv = Inr p"
  shows "output_dir p = PStr [] \<and> output_name p = PStr out \<and>
         (''EXPORT_RESULT:SUCCESS'' \<in> set (printed (export_ifc os h fs doc argv)) \<longrightarrow>
            ''OUTPUT_DIR:'' \<in> set (printed (export_ifc os h fs doc argv)) \<and>
            last (printed (export_ifc os h fs doc argv)) = ''OUTPUT_PATH:'' @ out)"
proof -
  let ?inp = "export_ifc_input doc argv"
  let ?warn = "fst (export_ifc_params os fs ?inp)"
  obtain p0 where p0: "p = output_override os (snd (positional argv)) p0"
    using export_ifc_plan_Inr [OF built] by blast
  have d: "output_dir p = PStr []" and n: "output_name p = PStr out"
    using arg bare by (simp_all add: p0 output_override_def)
  have r: "export_ifc os h fs doc argv = run_export os h doc ?inp ?warn (Inr p)"
    by (simp add: export_ifc_def shown_input built)
  have w: "?warn = [] \<or> (\<exists>e. ?warn = [''WARN: Could not read params.json: '' @ e])"
    by (rule export_ifc_params_warn_shape)
  have "''OUTPUT_DIR:'' \<in> set (printed (export_ifc os h fs doc argv)) \<and>
        last (printed (export_ifc os h fs doc argv)) = ''OUTPUT_PATH:'' @ out"
    if s: "''EXPORT_RESULT:SUCCESS'' \<in> set (printed (export_ifc os h fs doc argv))"
  proof (cases "\<exists>v. version_key p = PStr v")
    case True
    then obtain v where v: "version_key p = PStr v" ..
    let ?res = "fst (with_transaction h doc [] out (options p))"
    have pr: "printed (export_ifc os h fs doc argv) =
           ?warn @ [''EXPORT_START'', ''INPUT_PATH:'' @ ?inp, ''OUTPUT_DIR:'' @ [],
                   ''OUTPUT_NAME:'' @ out, ''IFC_VERSION:'' @ v]
                @ print_result os [] out ?res"
      unfolding r by (rule run_export_good(1) [OF d n v])
    have t: "print_result os [] out ?res = [''EXPORT_RESULT:SUCCESS'', ''OUTPUT_PATH:'' @ out]"
      using success_line [OF w s [unfolded pr]] bare(3) by simp
    show ?thesis unfolding pr t by simp
  next
    case False
    then have "printed (export_ifc os h fs doc argv) =
           ?warn @ [''EXPORT_START'', ''INPUT_PATH:'' @ ?inp, ''OUTPUT_DIR:'' @ [],
                   ''OUTPUT_NAME:'' @ out]"
      unfolding r using run_export_bad_version [OF d n] by simp
    with s no_success_line [OF w, of ?inp "[]" out] show ?thesis by simp
  qed
  with d n show ?thesis by blast
qed

theorem bare_output_name_witness:
  "snd (positional [''export_ifc.py'', ''/jobs/tower/design.rvt'', ''out.ifc'']) = Some ''out.ifc'' \<and>
   ''out.ifc'' \<noteq> [] \<and>
   dirname posixpath ''out.ifc'' = [] \<and> basename posixpath ''out.ifc'' = ''out.ifc'' \<and>
   join posixpath [] ''out.ifc'' = ''out.ifc'' \<and>
   export_ifc_plan posixpath steady_host placed_sidecar tower_doc
      [''export_ifc.py'', ''/jobs/tower/design.rvt'', ''out.ifc'']
     = Inr \<lparr>input_path = ''/jobs/tower/design.rvt'', version_key = PStr ''IFC4'',
            options = \<lparr>FileVersion = IFC4, WallAndColumnSplitting = False,
                        ExportBaseQuantities = True, AddedOptions = fixed_options\<rparr>,
            output_dir = PStr [], output_name = PStr ''out.ifc''\<rparr> \<and>
   ''EXPORT_RESULT:SUCCESS'' \<in> set (printed (export_ifc posixpath steady_host placed_sidecar tower_doc
      [''export_ifc.py'', ''/jobs/tower/design.rvt'', ''out.ifc''])) \<and>
   ''OUTPUT_DIR:'' \<in> set (printed (export_ifc posixpath steady_host placed_sidecar tower_doc
      [''export_ifc.py'', ''/jobs/tower/design.rvt'', ''out.ifc''])) \<and>
   last (printed (export_ifc posixpath steady_host placed_sidecar tower_doc
      [''export_ifc.py'', ''/jobs/tower/design.rvt'', ''out.ifc''])) = ''OUTPUT_PATH:'' @ ''out.ifc''"
proof -
  let ?argv = "[''export_ifc.py'', ''/jobs/tower/design.rvt'', ''out.ifc'']"
  let ?p = "\<lparr>input_path = ''/jobs/tower/design.rvt'', version_key = PStr ''IFC4'',
            options = \<lparr>FileVersion = IFC4, WallAndColumnSplitting = False,
                        ExportBaseQuantities = True, AddedOptions = fixed_options\<rparr>,
            output_dir = PStr [], output_name = PStr ''out.ifc''\<rparr>"
  have a: "snd (positional ?argv) = Some ''out.ifc''" by (simp add: run_defs)
  have ne: "''out.ifc'' \<noteq> []" by simp
  have b: "dirname posixpath ''out.ifc'' = []" "basename posixpath ''out.ifc'' = ''out.ifc''"
    "join posixpath [] ''out.ifc'' = ''out.ifc''"
    by (simp_all add: posixpath_def posix_bare)
  have built: "export_ifc_plan posixpath steady_host placed_sidecar tower_doc ?argv = Inr ?p"
    by (simp add: run_defs posix_defs sample_defs fixed_options_def)
  have s: "''EXPORT_RESULT:SUCCESS'' \<in>
            set (printed (export_ifc posixpath steady_host placed_sidecar tower_doc ?argv))"
    by (simp add: run_defs posix_defs sample_defs)
  from bare_output_name [OF a ne b built] s
  have "''OUTPUT_DIR:'' \<in> set (printed (export_ifc posixpath steady_host placed_sidecar tower_doc ?argv))"
    "last (printed (export_ifc posixpath steady_host placed_sidecar tower_doc ?argv))
       = ''OUTPUT_PATH:'' @ ''out.ifc''"
    by blast+
  with a ne b built s show ?thesis by (intro conjI)
qed

section \<open>Version resolution\<close>

text \<open>
  C6. For a sidecar object whose \<^verbatim>\<open>ifcVersion\<close> is absent or any string, reading the
  key and looking it up in \<^verbatim>\<open>IFC_VERSIONS\<close> never raise: the key read is the string
  (\<^verbatim>\<open>IFC4\<close> when absent), the version is \<^verbatim>\<open>IFC2x3CV2\<close> for \<^verbatim>\<open>IFC2x3\<close> and
  \<^verbatim>\<open>IFC4\<close> for every other string, in particular for every string outside the table,
  and it is the \<^verbatim>\<open>FileVersion\<close> of the options built. The lookup is total on strings.
\<close>

theorem ifcVersion_resolution_total:
  assumes "map_of kvs ''ifcVersion'' = None \<or> map_of kvs ''ifcVersion'' = Some (PStr s)"
  shows "\<exists>key ver.
           version_key_of (PDict kvs) = Inr (PStr key) \<and>
           key = (if map_of kvs ''ifcVersion'' = None then ''IFC4'' else s) \<and>
           ifc_version_of (PStr key) = Inr ver \<and>
           ver = (if key = ''IFC2x3'' then IFC2x3CV2 else IFC4) \<and>
           (key \<notin> {''IFC2x3'', ''IFC4''} \<longrightarrow> ver = IFC4) \<and>
           (configure os h (PDict kvs) inp = Inr p \<longrightarrow> FileVersion (options p) = ver) \<and>
           (\<forall>t. \<exists>v. ifc_version_of (PStr t) = Inr v)"
proof -
  define key where "key = (if map_of kvs ''ifcVersion'' = None then ''IFC4'' else s)"
  define ver where "ver = (if key = ''IFC2x3'' then IFC2x3CV2 else IFC4)"
  have 1: "version_key_of (PDict kvs) = Inr (PStr key)"
    using assms by (auto simp: version_key_of_def key_def)
  have 2: "ifc_version_of (PStr key) = Inr ver"
    unfolding ver_def by (rule ifc_version_of_str)
  have 3: "configure os h (PDict kvs) inp = Inr p \<longrightarrow> FileVersion (options p) = ver"
  proof
    assume "configure os h (PDict kvs) inp = Inr p"
    from configure_Inr [OF this]
    have v: "version_key_of (PDict kvs) = Inr (version_key p)"
      and f: "ifc_version_of (version_key p) = Inr (FileVersion (options p))"
      by blast+
    from v 1 have "version_key p = PStr key" by simp
    with f 2 show "FileVersion (options p) = ver" by simp
  qed
  have 4: "\<forall>t. \<exists>v. ifc_version_of (PStr t) = Inr v"
    by (simp add: ifc_version_of_str)
  have 5: "key \<notin> {''IFC2x3'', ''IFC4''} \<longrightarrow> ver = IFC4"
    by (simp add: ver_def)
  show ?thesis
    apply (rule exI [of _ key], rule exI [of _ ver])
    apply (intro conjI)
          apply (rule 1)
         apply (rule key_def)
        apply (rule 2)
       apply (rule ver_def)
      apply (rule 5)
     apply (rule 3)
    apply (rule 4)
    done
qed

theorem ifcVersion_resolution_total_witness:
  "(map_of [(''ifcVersion'', PStr ''IFC2x2'')] ''ifcVersion'' = None \<or>
    map_of [(''ifcVersion'', PStr ''IFC2x2'')] ''ifcVersion'' = Some (PStr ''IFC2x2'')) \<and>
   (\<exists>key ver.
      version_key_of (PDict [(''ifcVersion'', PStr ''IFC2x2'')]) = Inr (PStr key) \<and>
      key = ''IFC2x2'' \<and> ifc_version_of (PStr key) = Inr ver \<and> ver = IFC4)"
proof -
  have h: "map_of [(''ifcVersion'', PStr ''IFC2x2'')] ''ifcVersion'' = None \<or>
    map_of [(''ifcVersion'', PStr ''IFC2x2'')] ''ifcVersion'' = Some (PStr ''IFC2x2'')"
    by simp
  from ifcVersion_resolution_total [OF h, where os = posixpath and h = steady_host
      and inp = "''/jobs/tower/design.rvt''" and p = undefined]
  obtain key ver where k:
      "version_key_of (PDict [(''ifcVersion'', PStr ''IFC2x2'')]) = Inr (PStr key)"
      "key = (if map_of [(''ifcVersion'', PStr ''IFC2x2'')] ''ifcVersion'' = None
              then ''IFC4'' else ''IFC2x2'')"
      "ifc_version_of (PStr key) = Inr ver"
      "ver = (if key = ''IFC2x3'' then IFC2x3CV2 else IFC4)"
    by (elim exE conjE)
  from k(2) have k2: "key = ''IFC2x2''" by simp
  with k(4) have "ver = IFC4" by simp
  with k(1,3) k2 have "\<exists>key ver.
      version_key_of (PDict [(''ifcVersion'', PStr ''IFC2x2'')]) = Inr (PStr key) \<and>
      key = ''IFC2x2'' \<and> ifc_version_of (PStr key) = Inr ver \<and> ver = IFC4"
    by (intro exI conjI)
  with h show ?thesis by (rule conjI)
qed

section \<open>Loading params.json\<close>

lemma run_export_txn_created:
  assumes "output_dir p = PStr d" "output_name p = PStr n" "version_key p = PStr v"
  shows "txn (run_export os h doc shown warn (Inr p))
           = Some (snd (snd (with_transaction h doc d n (options p))))"
  by (simp add: run_export_def print_header_good [OF assms] split: prod.splits)

text \<open>
  C7 (as amended). For a run whose input path is not empty: when the file
  \<^verbatim>\<open>params.json\<close> next to the input path does not exist, the loader returns the empty
  dict and prints nothing; when it exists but cannot be opened or parsed, the loader makes one
  \<^verbatim>\<open>WARN:\<close> call and returns the empty dict. In both cases the run goes on with all
  defaults (version key \<^verbatim>\<open>IFC4\<close>, version IFC4, no wall splitting, base quantities,
  the three fixed options, directory and name from the input path unless an output path was
  given), creates the transaction, calls the export with that directory, name and options,
  reports what the host did (after \<^verbatim>\<open>EXPORT_RESULT:ERROR\<close> the text of the exception
  that \<^verbatim>\<open>Start\<close>, the export call or \<^verbatim>\<open>RollBack\<close> raised, or else SUCCESS
  or FAILED by the result of the export call), and is not ended by an exception. When no string printed
  holds a line feed, the calls are the lines of standard output, and the lines starting with
  \<^verbatim>\<open>WARN:\<close> are exactly those of the loader: none, or one. With an empty input
  path export\_ifc.py does not look for the file (line 58): it uses the empty dict and prints
  no warning, whatever the file system holds.
\<close>

theorem params_loading:
  assumes run: "r = export_ifc os h fs doc argv \<and> inp = export_ifc_input doc argv \<and>
                  plan = export_ifc_plan os h fs doc argv \<and> out = snd (positional argv) \<or>
                r = rbp_export_ifc os h fs doc \<and> inp = PathName doc \<and>
                  plan = rbp_export_ifc_plan os h fs doc \<and> out = None"
      and nonempty: "inp \<noteq> []"
      and sidecar: "fs (params_path os inp) = Missing \<and> warn = [] \<or>
                 fs (params_path os inp) = Unreadable e \<and>
                   warn = [''WARN: Could not read params.json: '' @ e]"
  shows "load_params os fs inp = (warn, PDict []) \<and>
         (\<exists>p d n tail.
            plan = Inr p \<and> version_key p = PStr ''IFC4'' \<and>
            options p = \<lparr>FileVersion = IFC4, WallAndColumnSplitting = False,
                         ExportBaseQuantities = True,
                         AddedOptions = [(''ExportInternalRevitPropertySets'', ''true''),
                                         (''ExportIFCCommonPropertySets'', ''true''),
                                         (''SitePlacement'', ''0'')]\<rparr> \<and>
            output_dir p = PStr d \<and> output_name p = PStr n \<and>
            (\<not> truthy out \<longrightarrow>
               d = dirname os inp \<and> n = fst (splitext os (basename os inp)) @ ''.ifc'') \<and>
            uncaught r = None \<and>
            txn r = Some (snd (snd (with_transaction h doc d n (options p)))) \<and>
            printed r = warn @ [''EXPORT_START'', ''INPUT_PATH:'' @ inp, ''OUTPUT_DIR:'' @ d,
                                ''OUTPUT_NAME:'' @ n, ''IFC_VERSION:IFC4''] @ tail \<and>
            (tail = [''EXPORT_RESULT:SUCCESS'', ''OUTPUT_PATH:'' @ join os d n] \<or>
             tail = [''EXPORT_RESULT:FAILED'', ''ERROR:Revit Document.Export() returned False''] \<or>
             (\<exists>m. tail = [''EXPORT_RESULT:ERROR'', ''ERROR:'' @ m])) \<and>
            (\<forall>m c. Start_raises h = None \<longrightarrow>
                   Export h d n (options p) (content doc) = (Raised m, c) \<longrightarrow>
                   tail = [''EXPORT_RESULT:ERROR'', ''ERROR:'' @ m]) \<and>
            (\<forall>b c. Start_raises h = None \<longrightarrow> RollBack_raises h = None \<longrightarrow>
                   Export h d n (options p) (content doc) = (Returned b, c) \<longrightarrow>
                   tail = (if b then [''EXPORT_RESULT:SUCCESS'', ''OUTPUT_PATH:'' @ join os d n]
                           else [''EXPORT_RESULT:FAILED'',
                                 ''ERROR:Revit Document.Export() returned False''])) \<and>
            (\<forall>m. Start_raises h = Some m \<longrightarrow>
                   tail = [''EXPORT_RESULT:ERROR'', ''ERROR:'' @ m]) \<and>
            (\<forall>m b c. Start_raises h = None \<longrightarrow> RollBack_raises h = Some m \<longrightarrow>
                   Export h d n (options p) (content doc) = (Returned b, c) \<longrightarrow>
                   tail = [''EXPORT_RESULT:ERROR'', ''ERROR:'' @ m]) \<and>
            (list_all single_line (printed r) \<longrightarrow>
               stdout_lines (printed r) = printed r \<and>
               filter (\<lambda>l. startswith l ''WARN:'') (stdout_lines (printed r)) = warn)) \<and>
         export_ifc_params os fs' [] = ([], PDict [])"
proof -
  have l: "load_params os fs inp = (warn, PDict [])"
    using sidecar by (auto simp: load_params_def)
  have ru: "r = export_ifc os h fs doc argv \<and> inp = export_ifc_input doc argv \<and>
             warn = fst (export_ifc_params os fs inp) \<and> plan = export_ifc_plan os h fs doc argv \<or>
           r = rbp_export_ifc os h fs doc \<and> inp = PathName doc \<and>
             warn = fst (load_params os fs inp) \<and> plan = rbp_export_ifc_plan os h fs doc"
    using run l nonempty by (auto simp: export_ifc_params_def)
  define p0 where "p0 = \<lparr>input_path = inp, version_key = PStr ''IFC4'',
          options = \<lparr>FileVersion = IFC4, WallAndColumnSplitting = False,
                      ExportBaseQuantities = True, AddedOptions = fixed_options\<rparr>,
          output_dir = PStr (dirname os inp),
          output_name = PStr (fst (splitext os (basename os inp)) @ ''.ifc'')\<rparr>"
  define p where "p = output_override os out p0"
  have pl: "plan = Inr p"
    using run l nonempty
    by (auto simp: export_ifc_plan_def rbp_export_ifc_plan_def export_ifc_params_def
          configure_empty p_def p0_def output_override_def)
  have "\<exists>d n. output_dir p = PStr d \<and> output_name p = PStr n"
    by (cases out) (simp_all add: p_def output_override_def p0_def)
  then obtain d n where dn: "output_dir p = PStr d" "output_name p = PStr n"
    by blast
  have vk: "version_key p = PStr ''IFC4''"
    by (simp add: p_def output_override_fields p0_def)
  have op: "options p = \<lparr>FileVersion = IFC4, WallAndColumnSplitting = False,
                         ExportBaseQuantities = True,
                         AddedOptions = [(''ExportInternalRevitPropertySets'', ''true''),
                                         (''ExportIFCCommonPropertySets'', ''true''),
                                         (''SitePlacement'', ''0'')]\<rparr>"
    by (simp add: p_def output_override_fields p0_def fixed_options_def)
  have df: "\<not> truthy out \<longrightarrow>
               d = dirname os inp \<and> n = fst (splitext os (basename os inp)) @ ''.ifc''"
    using dn by (cases out) (auto simp: p_def output_override_def p0_def)
  let ?tail = "print_result os d n (fst (with_transaction h doc d n (options p)))"
  have r: "r = run_export os h doc inp warn (Inr p)"
    using script_run_unfold [OF ru] pl by simp
  have un: "uncaught r = None"
    unfolding r by (rule run_export_good(2) [OF dn vk])
  have tx: "txn r = Some (snd (snd (with_transaction h doc d n (options p))))"
    unfolding r by (rule run_export_txn_created [OF dn vk])
  have pr: "printed r = warn @ [''EXPORT_START'', ''INPUT_PATH:'' @ inp, ''OUTPUT_DIR:'' @ d,
                                ''OUTPUT_NAME:'' @ n, ''IFC_VERSION:IFC4''] @ ?tail"
    unfolding r using run_export_good(1) [OF dn vk, of os h doc inp warn] by simp
  have w: "warn = [] \<or> (\<exists>e. warn = [''WARN: Could not read params.json: '' @ e])"
    using sidecar by auto
  have fl: "filter (\<lambda>l. startswith l ''WARN:'') (printed r) = warn"
    unfolding pr using warn_filter [OF w, of inp d n "''IFC4''" os] by simp
  have st: "list_all single_line (printed r) \<longrightarrow>
               stdout_lines (printed r) = printed r \<and>
               filter (\<lambda>l. startswith l ''WARN:'') (stdout_lines (printed r)) = warn"
    using fl by (simp add: stdout_lines_single)
  have skip: "export_ifc_params os fs' [] = ([], PDict [])"
    by (simp add: export_ifc_params_def)
  have "\<exists>p d n tail.
            plan = Inr p \<and> version_key p = PStr ''IFC4'' \<and>
            options p = \<lparr>FileVersion = IFC4, WallAndColumnSplitting = False,
                         ExportBaseQuantities = True,
                         AddedOptions = [(''ExportInternalRevitPropertySets'', ''true''),
                                         (''ExportIFCCommonPropertySets'', ''true''),
                                         (''SitePlacement'', ''0'')]\<rparr> \<and>
            output_dir p = PStr d \<and> output_name p = PStr n \<and>
            (\<not> truthy out \<longrightarrow>
               d = dirname os inp \<and> n = fst (splitext os (basename os inp)) @ ''.ifc'') \<and>
            uncaught r = None \<and>
            txn r = Some (snd (snd (with_transaction h doc d n (options p)))) \<and>
            printed r = warn @ [''EXPORT_START'', ''INPUT_PATH:'' @ inp, ''OUTPUT_DIR:'' @ d,
                                ''OUTPUT_NAME:'' @ n, ''IFC_VERSION:IFC4''] @ tail \<and>
            (tail = [''EXPORT_RESULT:SUCCESS'', ''OUTPUT_PATH:'' @ join os d n] \<or>
             tail = [''EXPORT_RESULT:FAILED'', ''ERROR:Revit Document.Export() returned False''] \<or>
             (\<exists>m. tail = [''EXPORT_RESULT:ERROR'', ''ERROR:'' @ m])) \<and>
            (\<forall>m c. Start_raises h = None \<longrightarrow>
                   Export h d n (options p) (content doc) = (Raised m, c) \<longrightarrow>
                   tail = [''EXPORT_RESULT:ERROR'', ''ERROR:'' @ m]) \<and>
            (\<forall>b c. Start_raises h = None \<longrightarrow> RollBack_raises h = None \<longrightarrow>
                   Export h d n (options p) (content doc) = (Returned b, c) \<longrightarrow>
                   tail = (if b then [''EXPORT_RESULT:SUCCESS'', ''OUTPUT_PATH:'' @ join os d n]
                           else [''EXPORT_RESULT:FAILED'',
                                 ''ERROR:Revit Document.Export() returned False''])) \<and>
            (\<forall>m. Start_raises h = Some m \<longrightarrow>
                   tail = [''EXPORT_RESULT:ERROR'', ''ERROR:'' @ m]) \<and>
            (\<forall>m b c. Start_raises h = None \<longrightarrow> RollBack_raises h = Some m \<longrightarrow>
                   Export h d n (options p) (content doc) = (Returned b, c) \<longrightarrow>
                   tail = [''EXPORT_RESULT:ERROR'', ''ERROR:'' @ m]) \<and>
            (list_all single_line (printed r) \<longrightarrow>
               stdout_lines (printed r) = printed r \<and>
               filter (\<lambda>l. startswith l ''WARN:'') (stdout_lines (printed r)) = warn)"
    apply (rule exI [of _ p], rule exI [of _ d], rule exI [of _ n], rule exI [of _ ?tail])
    apply (intro conjI allI)
                 apply (rule pl)
                apply (rule vk)
               apply (rule op)
              apply (rule dn(1))
             apply (rule dn(2))
            apply (rule df)
           apply (rule un)
          apply (rule tx)
         apply (rule pr)
        apply (rule result_lines_shape)
       apply (intro impI, erule (1) result_lines_raised)
      apply (intro impI, erule (2) result_lines_returned)
     apply (intro impI, erule result_lines_start_raised)
    apply (intro impI, erule (2) result_lines_rollback_raised)
    apply (rule st)
    done
  with l skip show ?thesis by (intro conjI)
qed

text \<open>
  The statement holds at a run of export\_ifc.py on a saved document whose params.json cannot
  be parsed: one \<^verbatim>\<open>WARN:\<close> line on standard output, all defaults, no exception.
\<close>

theorem params_loading_witness:
  "export_ifc_input tower_doc [''export_ifc.py''] \<noteq> [] \<and>
   garbled_sidecar (params_path posixpath (export_ifc_input tower_doc [''export_ifc.py'']))
     = Unreadable ''No JSON object could be decoded'' \<and>
   list_all single_line
     (printed (export_ifc posixpath steady_host garbled_sidecar tower_doc [''export_ifc.py''])) \<and>
   load_params posixpath garbled_sidecar (export_ifc_input tower_doc [''export_ifc.py''])
     = ([''WARN: Could not read params.json: '' @ ''No JSON object could be decoded''], PDict []) \<and>
   (\<exists>p. export_ifc_plan posixpath steady_host garbled_sidecar tower_doc [''export_ifc.py'']
          = Inr p \<and>
        version_key p = PStr ''IFC4'' \<and>
        uncaught (export_ifc posixpath steady_host garbled_sidecar tower_doc [''export_ifc.py''])
          = None \<and>
        filter (\<lambda>l. startswith l ''WARN:'')
          (stdout_lines
             (printed (export_ifc posixpath steady_host garbled_sidecar tower_doc
                         [''export_ifc.py''])))
          = [''WARN: Could not read params.json: '' @ ''No JSON object could be decoded''])"
proof -
  let ?argv = "[''export_ifc.py'']"
  let ?inp = "export_ifc_input tower_doc ?argv"
  let ?r = "export_ifc posixpath steady_host garbled_sidecar tower_doc ?argv"
  have ne: "?inp \<noteq> []"
    by (simp add: run_defs sample_defs)
  have un: "garbled_sidecar (params_path posixpath ?inp)
              = Unreadable ''No JSON object could be decoded''"
    by (simp add: run_defs posix_defs sample_defs)
  have sl: "list_all single_line (printed ?r)"
    by (simp add: run_defs posix_defs sample_defs single_line_def)
  from params_loading
     [where r = ?r
      and os = posixpath and h = steady_host and fs = garbled_sidecar and doc = tower_doc
      and argv = ?argv and inp = ?inp
      and plan = "export_ifc_plan posixpath steady_host garbled_sidecar tower_doc ?argv"
      and out = "snd (positional ?argv)" and e = "''No JSON object could be decoded''"
      and fs' = garbled_sidecar
      and warn = "[''WARN: Could not read params.json: '' @ ''No JSON object could be decoded'']",
      OF disjI1 [OF conjI [OF refl conjI [OF refl conjI [OF refl refl]]]] ne
         disjI2 [OF conjI [OF un refl]]]
  have "load_params posixpath garbled_sidecar ?inp
     = ([''WARN: Could not read params.json: '' @ ''No JSON object could be decoded''], PDict []) \<and>
   (\<exists>p. export_ifc_plan posixpath steady_host garbled_sidecar tower_doc ?argv = Inr p \<and>
        version_key p = PStr ''IFC4'' \<and>
        uncaught ?r = None \<and>
        (list_all single_line (printed ?r) \<longrightarrow>
           stdout_lines (printed ?r) = printed ?r \<and>
           filter (\<lambda>l. startswith l ''WARN:'') (stdout_lines (printed ?r))
             = [''WARN: Could not read params.json: '' @ ''No JSON object could be decoded'']))"
    by (elim exE conjE) (intro exI conjI; assumption)
  then have "load_params posixpath garbled_sidecar ?inp
     = ([''WARN: Could not read params.json: '' @ ''No JSON object could be decoded''], PDict []) \<and>
   (\<exists>p. export_ifc_plan posixpath steady_host garbled_sidecar tower_doc ?argv = Inr p \<and>
        version_key p = PStr ''IFC4'' \<and>
        uncaught ?r = None \<and>
        filter (\<lambda>l. startswith l ''WARN:'') (stdout_lines (printed ?r))
             = [''WARN: Could not read params.json: '' @ ''No JSON object could be decoded''])"
    using sl by blast
  with ne un sl show ?thesis by blast
qed

text \<open>
  As the claim is written it fails for export\_ifc.py started on an unsaved document without
  a positional argument: the input path is empty, line 58 skips the loader, and a
  \<^verbatim>\<open>params.json\<close> that exists at the path the loader would look at (the working
  directory) but cannot be parsed gets no \<^verbatim>\<open>WARN:\<close> line.
\<close>

theorem params_loading_counterexample:
  "export_ifc_input unsaved_doc [''export_ifc.py''] = [] \<and>
   garbled_cwd_sidecar (params_path posixpath (export_ifc_input unsaved_doc [''export_ifc.py'']))
     = Unreadable ''No JSON object could be decoded'' \<and>
   stdout_lines
     (printed (export_ifc posixpath steady_host garbled_cwd_sidecar unsaved_doc
                 [''export_ifc.py'']))
     = [''EXPORT_START'', ''INPUT_PATH:'', ''OUTPUT_DIR:'', ''OUTPUT_NAME:.ifc'',
        ''IFC_VERSION:IFC4'', ''EXPORT_RESULT:SUCCESS'', ''OUTPUT_PATH:.ifc'']"
  by (simp add: run_defs posix_defs sample_defs stdout_lines_def)

section \<open>The fixed export options\<close>

text \<open>
  C8. The three fixed options cannot be configured. Whatever params.json holds, the options a
  script builds carry exactly \<^verbatim>\<open>ExportInternalRevitPropertySets\<close> =
  \<^verbatim>\<open>true\<close>, \<^verbatim>\<open>ExportIFCCommonPropertySets\<close> = \<^verbatim>\<open>true\<close> and
  \<^verbatim>\<open>SitePlacement\<close> = \<^verbatim>\<open>0\<close>, and nothing else by name; two sidecar objects
  that agree on the five recognized keys give the same options, version key, directory and
  name, so a key outside the recognized set has no effect; and on every params.json that is
  missing, unreadable or of the documented shape the options are built.
\<close>

theorem fixed_export_options:
  assumes src: "plan = export_ifc_plan os h fs doc argv \<and>
                params = snd (export_ifc_params os fs (export_ifc_input doc argv)) \<or>
                plan = rbp_export_ifc_plan os h fs doc \<and>
                params = snd (load_params os fs (PathName doc))"
  shows "(conforming params \<longrightarrow> (\<exists>p. plan = Inr p)) \<and>
         (\<forall>p. plan = Inr p \<longrightarrow>
              AddedOptions (options p) =
                [(''ExportInternalRevitPropertySets'', ''true''),
                 (''ExportIFCCommonPropertySets'', ''true''), (''SitePlacement'', ''0'')]) \<and>
         (\<forall>kvs kvs' inp. (\<forall>k\<in>recognized. map_of kvs k = map_of kvs' k) \<longrightarrow>
              configure os h (PDict kvs) inp = configure os h (PDict kvs') inp)"
proof (intro conjI allI impI)
  assume "conforming params"
  with src show "\<exists>p. plan = Inr p"
    using export_ifc_plan_good [of os fs doc argv h] rbp_export_ifc_plan_good [of os fs doc h]
    by auto
next
  fix p assume b: "plan = Inr p"
  from src obtain inp out where
    "plan = export_ifc_plan os h fs doc argv \<and>
                params = snd (export_ifc_params os fs (export_ifc_input doc argv)) \<and>
                inp = export_ifc_input doc argv \<and> out = snd (positional argv) \<or>
                plan = rbp_export_ifc_plan os h fs doc \<and>
                params = snd (load_params os fs (PathName doc)) \<and>
                inp = PathName doc \<and> out = None"
    by auto
  from script_plan_Inr [OF this b] obtain p0 where
    p0: "configure os h params inp = Inr p0" "p = output_override os out p0" by blast
  from configure_Inr [OF p0(1)] have "AddedOptions (options p0) = fixed_options" by blast
  then show "AddedOptions (options p) =
                [(''ExportInternalRevitPropertySets'', ''true''),
                 (''ExportIFCCommonPropertySets'', ''true''), (''SitePlacement'', ''0'')]"
    by (simp add: p0(2) output_override_fields fixed_options_def)
next
  fix kvs kvs' :: "(string \<times> pyval) list" and inp
  assume "\<forall>k\<in>recognized. map_of kvs k = map_of kvs' k"
  then show "configure os h (PDict kvs) inp = configure os h (PDict kvs') inp"
    by (rule configure_same_recognized)
qed

theorem fixed_export_options_witness:
  "conforming (snd (load_params posixpath overriding_sidecar (PathName tower_doc))) \<and>
   (\<exists>p. rbp_export_ifc_plan posixpath steady_host overriding_sidecar tower_doc = Inr p \<and>
        AddedOptions (options p) =
          [(''ExportInternalRevitPropertySets'', ''true''),
           (''ExportIFCCommonPropertySets'', ''true''), (''SitePlacement'', ''0'')])"
proof -
  have c: "conforming (snd (load_params posixpath overriding_sidecar (PathName tower_doc)))"
    by (simp add: run_defs posix_defs sample_defs
          str_or_absent_def bool_or_absent_def)
  from fixed_export_options
     [where plan = "rbp_export_ifc_plan posixpath steady_host overriding_sidecar tower_doc"
      and os = posixpath and h = steady_host and fs = overriding_sidecar and doc = tower_doc
      and params = "snd (load_params posixpath overriding_sidecar (PathName tower_doc))",
      OF disjI2 [OF conjI [OF refl refl]]] c
  have "\<exists>p. rbp_export_ifc_plan posixpath steady_host overriding_sidecar tower_doc = Inr p \<and>
        AddedOptions (options p) =
          [(''ExportInternalRevitPropertySets'', ''true''),
           (''ExportIFCCommonPropertySets'', ''true''), (''SitePlacement'', ''0'')]"
    by blast
  with c show ?thesis by (rule conjI)
qed

section \<open>The two entry points\<close>

text \<open>
  Where the two scripts do agree: for a document whose path is not empty and an argument list
  holding only flags, they compute the same version key, options, directory and name, and
  their runs are equal.
\<close>

lemma same_run_on_saved_document:
  assumes saved: "PathName doc \<noteq> []"
      and flags: "list_all (\<lambda>a. startswith a ''--'') (script_args argv)"
  shows "export_ifc_plan os h fs doc argv = rbp_export_ifc_plan os h fs doc \<and>
         export_ifc os h fs doc argv = rbp_export_ifc os h fs doc"
proof -
  have p: "positional argv = (None, None)"
    unfolding positional_def by (rule scan_args_flags [OF flags])
  have i: "export_ifc_input doc argv = PathName doc"
    by (simp add: export_ifc_input_def p input_path_of_def)
  have l: "export_ifc_params os fs (PathName doc) = load_params os fs (PathName doc)"
    using saved by (simp add: export_ifc_params_def)
  have 1: "export_ifc_plan os h fs doc argv = rbp_export_ifc_plan os h fs doc"
    by (simp add: export_ifc_plan_def rbp_export_ifc_plan_def i l p output_override_def
          split: sum.splits)
  have 2: "export_ifc os h fs doc argv = rbp_export_ifc os h fs doc"
    using saved by (simp add: export_ifc_def rbp_export_ifc_def i l 1)
  from 1 2 show ?thesis by (rule conjI)
qed

text \<open>
  C9. The claim asks the two scripts for the same output name and the same status lines on
  the same document path and the same sidecar file, when no path is given on the command
  line. On an unsaved document (empty path), with the host's export call succeeding and
  \<^verbatim>\<open>{"outputName": "x.ifc"}\<close> in the \<^verbatim>\<open>params.json\<close> of the working
  directory, they differ: export\_ifc.py guards the loader with \<^verbatim>\<open>if input_path:\<close>
  (line 58), does not read the file and names the output \<^verbatim>\<open>.ifc\<close>;
  rbp\_export\_ifc.py has no such guard (lines 40 and 41), reads the file and names the
  output \<^verbatim>\<open>x.ifc\<close>.
\<close>

theorem entry_points_differ_on_unsaved_document:
  "PathName unsaved_doc = [] \<and>
   script_args [''export_ifc.py''] = [] \<and>
   printed (export_ifc posixpath steady_host cwd_sidecar unsaved_doc [''export_ifc.py''])
     = [''EXPORT_START'', ''INPUT_PATH:'', ''OUTPUT_DIR:'', ''OUTPUT_NAME:.ifc'',
        ''IFC_VERSION:IFC4'', ''EXPORT_RESULT:SUCCESS'', ''OUTPUT_PATH:.ifc''] \<and>
   printed (rbp_export_ifc posixpath steady_host cwd_sidecar unsaved_doc)
     = [''EXPORT_START'', ''INPUT_PATH:'', ''OUTPUT_DIR:'', ''OUTPUT_NAME:x.ifc'',
        ''IFC_VERSION:IFC4'', ''EXPORT_RESULT:SUCCESS'', ''OUTPUT_PATH:x.ifc'']"
  by (simp add: run_defs posix_defs sample_defs)

end
